theory Spec2Isabelle
  imports Complex_Main "HOL-Library.Sublist"
begin

section \<open>Python values carried by stage payloads\<close>

text \<open>
  Stage payloads are JSON-like Python values: \<open>Dict[str, Any]\<close> at the top level, with
  arbitrary values below. Numbers (Python \<open>int\<close> and finite \<open>float\<close>) are rationals;
  a dictionary is an association list read with \<open>map_of\<close> (string keys, as JSON has).
\<close>

datatype pyval =
    PNone
  | PBool bool
  | PNum rat
  | PStr string
  | PList "pyval list"
  | PDict "(string \<times> pyval) list"

type_synonym payload = "(string \<times> pyval) list"

datatype error =
    KeyError | TypeError | AttributeError | IndexError | ValueError
  | ValidationError | EOFError | OSError

text \<open>Sequencing of computations that may raise: the first error aborts.\<close>

definition and_then :: "error + 'a \<Rightarrow> ('a \<Rightarrow> error + 'b) \<Rightarrow> error + 'b" where
  "and_then r f = (case r of Inl e \<Rightarrow> Inl e | Inr x \<Rightarrow> f x)"

text \<open>Truth value of a Python object, as \<open>if x:\<close> and \<open>a and b\<close> test it.\<close>

fun truthy :: "pyval \<Rightarrow> bool" where
  "truthy PNone = False"
| "truthy (PBool b) = b"
| "truthy (PNum r) = (r \<noteq> 0)"
| "truthy (PStr s) = (s \<noteq> [])"
| "truthy (PList xs) = (xs \<noteq> [])"
| "truthy (PDict d) = (d \<noteq> [])"

text \<open>
  \<open>key in v\<close> for a string key: key membership in a dict, substring test in a string,
  element test in a list, TypeError on a value that is no container.
\<close>

fun contains_key :: "string \<Rightarrow> pyval \<Rightarrow> error + bool" where
  "contains_key k (PDict d) = Inr (map_of d k \<noteq> None)"
| "contains_key k (PStr s) = Inr (sublist k s)"
| "contains_key k (PList xs) = Inr (PStr k \<in> set xs)"
| "contains_key k PNone = Inl TypeError"
| "contains_key k (PBool b) = Inl TypeError"
| "contains_key k (PNum r) = Inl TypeError"

text \<open>\<open>v[key]\<close> for a string key.\<close>

fun getitem :: "pyval \<Rightarrow> string \<Rightarrow> error + pyval" where
  "getitem (PDict d) k = (case map_of d k of None \<Rightarrow> Inl KeyError | Some x \<Rightarrow> Inr x)"
| "getitem (PStr s) k = Inl TypeError"
| "getitem (PList xs) k = Inl TypeError"
| "getitem PNone k = Inl TypeError"
| "getitem (PBool b) k = Inl TypeError"
| "getitem (PNum r) k = Inl TypeError"

text \<open>\<open>v[0]\<close>: the first element of a list, the first character of a string.\<close>

fun getitem0 :: "pyval \<Rightarrow> error + pyval" where
  "getitem0 (PList xs) = (case xs of [] \<Rightarrow> Inl IndexError | x # _ \<Rightarrow> Inr x)"
| "getitem0 (PStr s) = (case s of [] \<Rightarrow> Inl IndexError | c # _ \<Rightarrow> Inr (PStr [c]))"
| "getitem0 (PDict d) = Inl KeyError"
| "getitem0 PNone = Inl TypeError"
| "getitem0 (PBool b) = Inl TypeError"
| "getitem0 (PNum r) = Inl TypeError"

text \<open>\<open>v.get(key, default)\<close>: only a dict has the method.\<close>

fun dict_get :: "pyval \<Rightarrow> string \<Rightarrow> pyval \<Rightarrow> error + pyval" where
  "dict_get (PDict d) k dflt = Inr (case map_of d k of None \<Rightarrow> dflt | Some x \<Rightarrow> x)"
| "dict_get PNone k dflt = Inl AttributeError"
| "dict_get (PBool b) k dflt = Inl AttributeError"
| "dict_get (PNum r) k dflt = Inl AttributeError"
| "dict_get (PStr s) k dflt = Inl AttributeError"
| "dict_get (PList xs) k dflt = Inl AttributeError"

text \<open>
  The operand of an ordering comparison with a number: a number, or a bool (an \<open>int\<close>
  subclass); anything else raises TypeError.
\<close>

fun as_number :: "pyval \<Rightarrow> error + rat" where
  "as_number (PNum r) = Inr r"
| "as_number (PBool b) = Inr (if b then 1 else 0)"
| "as_number PNone = Inl TypeError"
| "as_number (PStr s) = Inl TypeError"
| "as_number (PList xs) = Inl TypeError"
| "as_number (PDict d) = Inl TypeError"

text \<open>\<open>len(v)\<close>.\<close>

fun py_len :: "pyval \<Rightarrow> error + nat" where
  "py_len (PList xs) = Inr (length xs)"
| "py_len (PStr s) = Inr (length s)"
| "py_len (PDict d) = Inr (length d)"
| "py_len PNone = Inl TypeError"
| "py_len (PBool b) = Inl TypeError"
| "py_len (PNum r) = Inl TypeError"

text \<open>The elements \<open>for c in v\<close> yields: list elements, characters, dict keys.\<close>

fun py_iter :: "pyval \<Rightarrow> error + pyval list" where
  "py_iter (PList xs) = Inr xs"
| "py_iter (PStr s) = Inr (map (\<lambda>c. PStr [c]) s)"
| "py_iter (PDict d) = Inr (map (\<lambda>kv. PStr (fst kv)) d)"
| "py_iter PNone = Inl TypeError"
| "py_iter (PBool b) = Inl TypeError"
| "py_iter (PNum r) = Inl TypeError"

section \<open>The validation score\<close>

text \<open>
  \<open>_calculate_validation_score\<close> threads the local \<open>score\<close> through four blocks. Each
  block below takes the score so far and returns the updated score, or the exception the
  block raises.
\<close>

definition market_size_step :: "pyval \<Rightarrow> int \<Rightarrow> error + int" where
  "market_size_step trends score =
     and_then (contains_key ''market_size'' trends) (\<lambda>present.
       if present then
         and_then (getitem trends ''market_size'') (\<lambda>v.
         and_then (as_number v) (\<lambda>market_size.
           Inr (if market_size > 1000000000 then score + 10
                else if market_size > 100000000 then score + 5
                else if market_size < 10000000 then score - 5
                else score)))
       else Inr score)"

definition growth_rate_step :: "pyval \<Rightarrow> int \<Rightarrow> error + int" where
  "growth_rate_step trends score =
     and_then (contains_key ''growth_rate'' trends) (\<lambda>present.
       if present then
         and_then (getitem trends ''growth_rate'') (\<lambda>v.
         and_then (as_number v) (\<lambda>growth_rate.
           Inr (if growth_rate > 20 then score + 10
                else if growth_rate > 10 then score + 5
                else if growth_rate < 5 then score - 5
                else if growth_rate < 0 then score - 10
                else score)))
       else Inr score)"

definition market_factors :: "payload \<Rightarrow> int \<Rightarrow> error + int" where
  "market_factors market_data score =
     (case map_of market_data ''market_trends'' of
        None \<Rightarrow> Inr score
      | Some trends \<Rightarrow>
          and_then (market_size_step trends score) (growth_rate_step trends))"

text \<open>\<open>sum(1 for c in competitors if c.get("type") == "direct")\<close> over the elements.\<close>

fun count_direct :: "pyval list \<Rightarrow> error + nat" where
  "count_direct [] = Inr 0"
| "count_direct (c # cs) =
     and_then (dict_get c ''type'' PNone) (\<lambda>t.
     and_then (count_direct cs) (\<lambda>n.
       Inr (if t = PStr ''direct'' then Suc n else n)))"

definition market_gaps_step :: "payload \<Rightarrow> int \<Rightarrow> error + int" where
  "market_gaps_step competitor_data score =
     (case map_of competitor_data ''market_gaps'' of
        None \<Rightarrow> Inr score
      | Some gaps \<Rightarrow>
          if truthy gaps then
            and_then (py_len gaps) (\<lambda>n.
              Inr (if n > 3 then score + 5 + 5 else score + 5))
          else Inr score)"

definition competitor_factors :: "payload \<Rightarrow> int \<Rightarrow> error + int" where
  "competitor_factors competitor_data score =
     (case map_of competitor_data ''competitors'' of
        None \<Rightarrow> Inr score
      | Some competitors \<Rightarrow>
          and_then (py_iter competitors) (\<lambda>cs.
          and_then (count_direct cs) (\<lambda>num_direct.
            market_gaps_step competitor_data
              (if num_direct = 0 then score + 5
               else if num_direct > 10 then score - 5
               else score))))"

definition pain_level_step :: "pyval \<Rightarrow> int \<Rightarrow> error + int" where
  "pain_level_step personas score =
     and_then (getitem0 personas) (\<lambda>first.
     and_then (contains_key ''pain_level'' first) (\<lambda>present.
       if present then
         and_then (getitem0 personas) (\<lambda>first'.
         and_then (getitem first' ''pain_level'') (\<lambda>pain_level.
           Inr (if pain_level = PStr ''high'' then score + 10
                else if pain_level = PStr ''medium'' then score + 5
                else if pain_level = PStr ''low'' then score - 5
                else score)))
       else Inr score))"

definition willingness_step :: "pyval \<Rightarrow> int \<Rightarrow> error + int" where
  "willingness_step personas score =
     and_then (getitem0 personas) (\<lambda>first.
     and_then (contains_key ''willingness_to_pay'' first) (\<lambda>present.
       if present then
         and_then (getitem0 personas) (\<lambda>first'.
         and_then (getitem first' ''willingness_to_pay'') (\<lambda>wtp.
           Inr (if wtp = PStr ''high'' then score + 5
                else if wtp = PStr ''low'' then score - 5
                else score)))
       else Inr score))"

definition persona_factors :: "payload \<Rightarrow> int \<Rightarrow> error + int" where
  "persona_factors persona_data score =
     (case map_of persona_data ''personas'' of
        None \<Rightarrow> Inr score
      | Some personas \<Rightarrow>
          if truthy personas then
            and_then (pain_level_step personas score) (willingness_step personas)
          else Inr score)"

definition development_time_step :: "payload \<Rightarrow> int \<Rightarrow> error + int" where
  "development_time_step mvp_data score =
     (case map_of mvp_data ''development_time'' of
        None \<Rightarrow> Inr score
      | Some development_time \<Rightarrow>
          and_then (getitem development_time ''weeks'') (\<lambda>v.
          and_then (as_number v) (\<lambda>dev_time.
            Inr (if dev_time < 6 then score + 5
                 else if dev_time > 12 then score - 5
                 else score))))"

definition cost_estimate_step :: "payload \<Rightarrow> int \<Rightarrow> error + int" where
  "cost_estimate_step mvp_data score =
     (case map_of mvp_data ''cost_estimate'' of
        None \<Rightarrow> Inr score
      | Some cost_estimate \<Rightarrow>
          and_then (dict_get cost_estimate ''min'' (PNum 0)) (\<lambda>v.
          and_then (as_number v) (\<lambda>min_cost.
            Inr (if min_cost < 15000 then score + 5
                 else if min_cost > 50000 then score - 5
                 else score))))"

definition mvp_factors :: "payload \<Rightarrow> int \<Rightarrow> error + int" where
  "mvp_factors mvp_data score =
     and_then (development_time_step mvp_data score) (cost_estimate_step mvp_data)"

text \<open>The local \<open>score\<close> as it stands before the \<open>return\<close> statement clamps it.\<close>

definition score_before_clamp ::
  "payload \<Rightarrow> payload \<Rightarrow> payload \<Rightarrow> payload \<Rightarrow> error + int" where
  "score_before_clamp market_data competitor_data persona_data mvp_data =
     and_then (market_factors market_data 50) (\<lambda>s1.
     and_then (competitor_factors competitor_data s1) (\<lambda>s2.
     and_then (persona_factors persona_data s2) (\<lambda>s3.
       mvp_factors mvp_data s3)))"

definition calculate_validation_score ::
  "payload \<Rightarrow> payload \<Rightarrow> payload \<Rightarrow> payload \<Rightarrow> error + int" where
  "calculate_validation_score market_data competitor_data persona_data mvp_data =
     and_then (score_before_clamp market_data competitor_data persona_data mvp_data)
       (\<lambda>score. Inr (max 0 (min 100 score)))"

section \<open>Well-formed score fields\<close>


fun is_dict :: "pyval \<Rightarrow> bool" where
  "is_dict (PDict d) = True"
| "is_dict v = False"







section \<open>Collaborators and the orchestrator state\<close>

text \<open>The pydantic model \<open>AgentOutput\<close>.\<close>

record agent_output =
  agent_name :: string
  message_type :: string
  content :: payload
  success :: bool
  metadata :: "payload option"

text \<open>
  What \<open>process\<close> hands back: an \<open>AgentOutput\<close> instance, or the plain dict that
  \<open>BaseAgent.process\<close> declares.
\<close>

datatype returned = Output agent_output | Raw payload

text \<open>
  One awaited call under \<open>asyncio.wait_for\<close>: it returns a value, it is cancelled at
  the timeout (\<open>asyncio.TimeoutError\<close>), or it raises an exception with the given text.
\<close>

datatype 'r outcome = Returns 'r | TimesOut | Raises string

text \<open>
  A collaborator may behave differently on each call, so it is a function of the number
  of calls it has received before and of its argument.
\<close>

type_synonym agent = "nat \<Rightarrow> payload \<Rightarrow> returned outcome"
type_synonym tool = "nat \<Rightarrow> payload \<Rightarrow> payload outcome"

text \<open>
  The instance state of \<open>BaseOrchestrator\<close> with the configuration fields the
  orchestration reads. \<open>agent_calls\<close> and \<open>tool_calls\<close> count the calls each registered
  collaborator has received; \<open>console_input\<close> holds the lines a human will type.
  Log output and the files written below \<open>output_dir\<close> are not part of the state.
\<close>

record orchestrator =
  save_intermediate_results :: bool
  human_in_the_loop :: bool
  max_retries :: int
  agents :: "string \<rightharpoonup> agent"
  tools :: "string \<rightharpoonup> tool"
  current_workflow :: "string option"
  results_store :: "string \<rightharpoonup> returned"
  agent_calls :: "string \<Rightarrow> nat"
  tool_calls :: "string \<Rightarrow> nat"
  console_input :: "string list"

text \<open>
  \<open>str(e)\<close> for the \<open>asyncio.TimeoutError\<close> that \<open>asyncio.wait_for\<close> raises: the
  exception is raised without arguments, so its text is empty.
\<close>

definition timeout_text :: string where
  "timeout_text = []"

text \<open>
  \<open>_save_result\<close>: the results store is updated; the file write that follows catches
  every exception, so the call never raises.
\<close>

definition save_result :: "string \<Rightarrow> returned \<Rightarrow> orchestrator \<Rightarrow> orchestrator" where
  "save_result key result self = self\<lparr>results_store := (results_store self)(key \<mapsto> result)\<rparr>"

definition get_result :: "orchestrator \<Rightarrow> string \<Rightarrow> returned option" where
  "get_result self key = results_store self key"

text \<open>
  The checkpoint inside the retry loop:
  \<open>if self.config.save_intermediate_results and self.current_workflow\<close>, where an empty
  workflow name is as false as \<open>None\<close>.
\<close>

definition checkpoint :: "string \<Rightarrow> returned \<Rightarrow> orchestrator \<Rightarrow> orchestrator" where
  "checkpoint collaborator result self =
     (case current_workflow self of
        None \<Rightarrow> self
      | Some workflow \<Rightarrow>
          if save_intermediate_results self \<and> workflow \<noteq> []
          then save_result (workflow @ ''_'' @ collaborator) result self
          else self)"

definition wrap_output :: "string \<Rightarrow> returned \<Rightarrow> agent_output" where
  "wrap_output name result =
     (case result of
        Output out \<Rightarrow> out
      | Raw d \<Rightarrow> \<lparr>agent_name = name, message_type = ''result'', content = d,
                  success = True, metadata = None\<rparr>)"

section \<open>The execution guard\<close>

text \<open>
  How the \<open>for attempt in range(max_retries)\<close> loop is left: by \<open>return\<close>, by the
  \<open>raise\<close> of the last attempt (with the text of the exception), or by running out of
  attempts, after which the function returns \<open>None\<close>.
\<close>

datatype 'a loop_exit = Returned 'a | Raised string | Fell_through

fun agent_attempts ::
  "agent \<Rightarrow> string \<Rightarrow> payload \<Rightarrow> nat list \<Rightarrow> orchestrator \<Rightarrow> agent_output loop_exit \<times> orchestrator"
where
  "agent_attempts agent name input_data [] self = (Fell_through, self)"
| "agent_attempts agent name input_data (attempt # rest) self =
     (let called = self\<lparr>agent_calls := (agent_calls self)(name := Suc (agent_calls self name))\<rparr>
      in case agent (agent_calls self name) input_data of
           Returns result \<Rightarrow> (Returned (wrap_output name result), checkpoint name result called)
         | TimesOut \<Rightarrow>
             if int attempt = max_retries self - 1 then (Raised timeout_text, called)
             else agent_attempts agent name input_data rest called
         | Raises text \<Rightarrow>
             if int attempt = max_retries self - 1 then (Raised text, called)
             else agent_attempts agent name input_data rest called)"

definition run_agent ::
  "orchestrator \<Rightarrow> string \<Rightarrow> payload \<Rightarrow> (error + agent_output option) \<times> orchestrator"
where
  "run_agent self name input_data =
     (case agents self name of
        None \<Rightarrow> (Inl ValueError, self)
      | Some agent \<Rightarrow>
          (case agent_attempts agent name input_data [0..<nat (max_retries self)] self of
             (Returned out, self') \<Rightarrow> (Inr (Some out), self')
           | (Raised text, self') \<Rightarrow>
               (Inr (Some \<lparr>agent_name = name, message_type = ''error'',
                           content = [(''error'', PStr text)], success = False,
                           metadata = None\<rparr>), self')
           | (Fell_through, self') \<Rightarrow> (Inr None, self')))"

fun tool_attempts ::
  "tool \<Rightarrow> string \<Rightarrow> payload \<Rightarrow> nat list \<Rightarrow> orchestrator \<Rightarrow> payload loop_exit \<times> orchestrator"
where
  "tool_attempts tool name kwargs [] self = (Fell_through, self)"
| "tool_attempts tool name kwargs (attempt # rest) self =
     (let called = self\<lparr>tool_calls := (tool_calls self)(name := Suc (tool_calls self name))\<rparr>
      in case tool (tool_calls self name) kwargs of
           Returns result \<Rightarrow> (Returned result, checkpoint name (Raw result) called)
         | TimesOut \<Rightarrow>
             if int attempt = max_retries self - 1 then (Raised timeout_text, called)
             else tool_attempts tool name kwargs rest called
         | Raises text \<Rightarrow>
             if int attempt = max_retries self - 1 then (Raised text, called)
             else tool_attempts tool name kwargs rest called)"

definition run_tool ::
  "orchestrator \<Rightarrow> string \<Rightarrow> payload \<Rightarrow> (error + payload option) \<times> orchestrator"
where
  "run_tool self name kwargs =
     (case tools self name of
        None \<Rightarrow> (Inl ValueError, self)
      | Some tool \<Rightarrow>
          (case tool_attempts tool name kwargs [0..<nat (max_retries self)] self of
             (Returned result, self') \<Rightarrow> (Inr (Some result), self')
           | (Raised text, self') \<Rightarrow>
               (Inr (Some [(''status'', PStr ''error''),
                           (''message'', PStr (''Tool execution failed: '' @ text))]), self')
           | (Fell_through, self') \<Rightarrow> (Inr None, self')))"

section \<open>The workflow engine\<close>

text \<open>
  A registered workflow is called with the orchestrator and the input; it returns a dict
  or raises, and leaves the orchestrator in a new state. The registry \<open>self.workflows\<close>
  is passed beside the state it acts on.
\<close>

type_synonym workflow = "orchestrator \<Rightarrow> payload \<Rightarrow> (error + payload) \<times> orchestrator"

definition execute_workflow ::
  "(string \<rightharpoonup> workflow) \<Rightarrow> orchestrator \<Rightarrow> string \<Rightarrow> payload \<Rightarrow> (error + payload) \<times> orchestrator"
where
  "execute_workflow workflows self workflow_name input_data =
     (case workflows workflow_name of
        None \<Rightarrow> (Inl ValueError, self)
      | Some workflow_function \<Rightarrow>
          (case workflow_function
                  (self\<lparr>current_workflow := Some workflow_name, results_store := Map.empty\<rparr>)
                  input_data of
             (Inr result, self') \<Rightarrow>
               (Inr result,
                (if save_intermediate_results self'
                 then save_result ''final_result'' (Raw result) self'
                 else self')\<lparr>current_workflow := None\<rparr>)
           | (Inl e, self') \<Rightarrow> (Inl e, self'\<lparr>current_workflow := None\<rparr>)))"

section \<open>The validation pipelines\<close>

text \<open>The pydantic model \<open>StartupIdea\<close> and its \<open>dict()\<close>.\<close>

record startup_idea =
  idea_name :: string
  idea_description :: string
  target_audience :: "string option"
  industry :: "string option"
  problem_statement :: "string option"
  solution :: "string option"
  revenue_model :: "string option"
  initial_thoughts :: "string option"

definition optional_str :: "string option \<Rightarrow> pyval" where
  "optional_str x = (case x of None \<Rightarrow> PNone | Some s \<Rightarrow> PStr s)"

definition idea_dict :: "startup_idea \<Rightarrow> payload" where
  "idea_dict i =
     [(''name'', PStr (idea_name i)),
      (''description'', PStr (idea_description i)),
      (''target_audience'', optional_str (target_audience i)),
      (''industry'', optional_str (industry i)),
      (''problem_statement'', optional_str (problem_statement i)),
      (''solution'', optional_str (solution i)),
      (''revenue_model'', optional_str (revenue_model i)),
      (''initial_thoughts'', optional_str (initial_thoughts i))]"

text \<open>
  What the pipelines take from outside the repository: the validating constructors of
  pydantic (\<open>None\<close> stands for a ValidationError), the clock, Python's \<open>int()\<close> on a typed
  line, and whether the report file can be written. The texts that
  \<open>_generate_recommendations\<close> composes are not modelled: the function is a parameter
  that returns a list of texts or raises.
\<close>

record environment =
  construct_idea :: "payload \<Rightarrow> startup_idea option"
  validate_personas :: "pyval \<Rightarrow> pyval list option"
  now_isoformat :: string
  parse_int :: "string \<Rightarrow> int option"
  report_file_written :: bool
  generate_recommendations :: "payload \<Rightarrow> payload \<Rightarrow> payload \<Rightarrow> payload \<Rightarrow> error + string list"

text \<open>
  \<open>_parse_startup_idea\<close>. The input is JSON, so the value under \<open>idea\<close> is never a
  \<open>StartupIdea\<close> instance. A dict under \<open>idea\<close> is constructed outside the \<open>try\<close>, so
  its ValidationError propagates; the root-level attempt turns any failure into ValueError.
\<close>

definition parse_startup_idea :: "environment \<Rightarrow> payload \<Rightarrow> error + startup_idea" where
  "parse_startup_idea env input_data =
     (case map_of input_data ''idea'' of
        Some (PDict idea_data) \<Rightarrow>
          (case construct_idea env idea_data of
             None \<Rightarrow> Inl ValidationError
           | Some i \<Rightarrow> Inr i)
      | _ \<Rightarrow>
          (case construct_idea env input_data of
             None \<Rightarrow> Inl ValueError
           | Some i \<Rightarrow> Inr i))"

text \<open>\<open>d.get(key, default)\<close> on a payload.\<close>

definition payload_get :: "payload \<Rightarrow> string \<Rightarrow> pyval \<Rightarrow> pyval" where
  "payload_get d k dflt = (case map_of d k of None \<Rightarrow> dflt | Some x \<Rightarrow> x)"

text \<open>
  \<open>_generate_error_report\<close>: an optional payload is added under its key only when it is
  truthy, that is neither \<open>None\<close> nor an empty dict.
\<close>

definition generate_error_report ::
  "environment \<Rightarrow> string \<Rightarrow> startup_idea \<Rightarrow> payload option \<Rightarrow> payload option \<Rightarrow> payload option
   \<Rightarrow> payload"
where
  "generate_error_report env error_message i market_data competitor_data persona_data =
     [(''success'', PBool False),
      (''error'', PStr error_message),
      (''idea'', PDict (idea_dict i)),
      (''timestamp'', PStr (now_isoformat env))]
     @ (case market_data of
          None \<Rightarrow> []
        | Some m \<Rightarrow> if m \<noteq> [] then [(''market_analysis'', PDict m)] else [])
     @ (case competitor_data of
          None \<Rightarrow> []
        | Some c \<Rightarrow> if c \<noteq> [] then [(''competitor_analysis'', PDict c)] else [])
     @ (case persona_data of
          None \<Rightarrow> []
        | Some p \<Rightarrow>
            if p \<noteq> [] then [(''customer_personas'', payload_get p ''personas'' (PList []))]
            else [])"

definition generate_interim_report ::
  "environment \<Rightarrow> orchestrator \<Rightarrow> startup_idea \<Rightarrow> payload \<Rightarrow> payload \<Rightarrow> payload
   \<Rightarrow> payload \<times> orchestrator"
where
  "generate_interim_report env self i market_data competitor_data persona_data =
     (let report =
        [(''success'', PBool True),
         (''idea'', PDict (idea_dict i)),
         (''market_analysis'', PDict market_data),
         (''competitor_analysis'', PDict competitor_data),
         (''customer_personas'', payload_get persona_data ''personas'' (PList [])),
         (''timestamp'', PStr (now_isoformat env)),
         (''status'', PStr ''interim''),
         (''message'', PStr ''MVP planning was skipped due to user request'')]
      in (report, save_result ''interim_report'' (Raw report) self))"

text \<open>The pydantic model \<open>StartupValidationReport\<close> and its \<open>dict()\<close>.\<close>

record validation_report =
  report_idea :: startup_idea
  market_analysis :: payload
  competitor_analysis :: payload
  customer_personas :: "pyval list"
  mvp_plan :: payload
  recommendations :: "string list"
  validation_score :: "rat option"
  timestamp :: string

definition report_dict :: "validation_report \<Rightarrow> payload" where
  "report_dict r =
     [(''idea'', PDict (idea_dict (report_idea r))),
      (''market_analysis'', PDict (market_analysis r)),
      (''competitor_analysis'', PDict (competitor_analysis r)),
      (''customer_personas'', PList (customer_personas r)),
      (''mvp_plan'', PDict (mvp_plan r)),
      (''recommendations'', PList (map PStr (recommendations r))),
      (''validation_score'', (case validation_score r of None \<Rightarrow> PNone | Some x \<Rightarrow> PNum x)),
      (''timestamp'', PStr (timestamp r))]"

text \<open>
  \<open>_generate_validation_report\<close>: the recommendations, then the score, then the
  validating constructor of the report.
\<close>

definition generate_validation_report ::
  "environment \<Rightarrow> startup_idea \<Rightarrow> payload \<Rightarrow> payload \<Rightarrow> payload \<Rightarrow> payload
   \<Rightarrow> error + validation_report"
where
  "generate_validation_report env i market_data competitor_data persona_data mvp_data =
     and_then (generate_recommendations env market_data competitor_data persona_data mvp_data)
       (\<lambda>recs.
     and_then (calculate_validation_score market_data competitor_data persona_data mvp_data)
       (\<lambda>score.
       (case validate_personas env (payload_get persona_data ''personas'' (PList [])) of
          None \<Rightarrow> Inl ValidationError
        | Some personas \<Rightarrow>
            Inr \<lparr>report_idea = i, market_analysis = market_data,
                 competitor_analysis = competitor_data, customer_personas = personas,
                 mvp_plan = mvp_data, recommendations = recs,
                 validation_score = Some (of_int score),
                 timestamp = now_isoformat env\<rparr>)))"

text \<open>\<open>_save_validation_report\<close> writes a file; an I/O failure is not caught.\<close>

definition save_validation_report :: "environment \<Rightarrow> validation_report \<Rightarrow> error + unit" where
  "save_validation_report env report =
     (if report_file_written env then Inr () else Inl OSError)"

text \<open>
  \<open>get_human_feedback\<close>. With options, the console loop reads lines until one parses
  to a number between 1 and the number of options; the end of the input raises EOFError.
\<close>

fun ask_choice ::
  "(string \<Rightarrow> int option) \<Rightarrow> string list \<Rightarrow> string list \<Rightarrow> (error + string) \<times> string list"
where
  "ask_choice parse options [] = (Inl EOFError, [])"
| "ask_choice parse options (line # rest) =
     (case parse line of
        None \<Rightarrow> ask_choice parse options rest
      | Some choice \<Rightarrow>
          if 1 \<le> choice \<and> choice \<le> int (length options)
          then (Inr (options ! nat (choice - 1)), rest)
          else ask_choice parse options rest)"

definition get_human_feedback ::
  "environment \<Rightarrow> orchestrator \<Rightarrow> string \<Rightarrow> string list option \<Rightarrow> (error + string) \<times> orchestrator"
where
  "get_human_feedback env self message options =
     (if \<not> human_in_the_loop self then
        (Inr (case options of Some (first # _) \<Rightarrow> first | _ \<Rightarrow> ''approved''), self)
      else
        (case options of
           Some (first # others) \<Rightarrow>
             (case ask_choice (parse_int env) (first # others) (console_input self) of
                (answer, rest) \<Rightarrow> (answer, self\<lparr>console_input := rest\<rparr>))
         | _ \<Rightarrow>
             (case console_input self of
                [] \<Rightarrow> (Inl EOFError, self)
              | line # rest \<Rightarrow> (Inr line, self\<lparr>console_input := rest\<rparr>))))"

text \<open>
  \<open>workflow_full_validation\<close>, one definition for each stage of the source, the later
  stage first. \<open>run_agent\<close> may raise (unknown agent) and may return \<open>None\<close> (no attempt
  made), on which reading \<open>.success\<close> raises AttributeError.
\<close>

definition final_report_stage ::
  "environment \<Rightarrow> orchestrator \<Rightarrow> startup_idea \<Rightarrow> payload \<Rightarrow> payload \<Rightarrow> payload \<Rightarrow> payload
   \<Rightarrow> (error + payload) \<times> orchestrator"
where
  "final_report_stage env self i market_data competitor_data persona_data mvp_data =
     (case generate_validation_report env i market_data competitor_data persona_data mvp_data of
        Inl e \<Rightarrow> (Inl e, self)
      | Inr report \<Rightarrow>
          (case save_validation_report env report of
             Inl e \<Rightarrow> (Inl e, self)
           | Inr _ \<Rightarrow> (Inr (report_dict report), self)))"

definition mvp_stage ::
  "environment \<Rightarrow> orchestrator \<Rightarrow> startup_idea \<Rightarrow> payload \<Rightarrow> payload \<Rightarrow> payload
   \<Rightarrow> (error + payload) \<times> orchestrator"
where
  "mvp_stage env self i market_data competitor_data persona_data =
     (case run_agent self ''mvp_planner''
             [(''idea'', PDict (idea_dict i)),
              (''market_data'', PDict market_data),
              (''competitor_data'', PDict competitor_data),
              (''customer_personas'', PDict persona_data)] of
        (Inl e, self') \<Rightarrow> (Inl e, self')
      | (Inr None, self') \<Rightarrow> (Inl AttributeError, self')
      | (Inr (Some mvp_result), self') \<Rightarrow>
          if \<not> success mvp_result then
            (Inr (generate_error_report env ''MVP planning failed'' i
                    (Some market_data) (Some competitor_data) (Some persona_data)), self')
          else
            final_report_stage env (save_result ''mvp_plan'' (Raw (content mvp_result)) self')
              i market_data competitor_data persona_data (content mvp_result))"

definition approval_stage ::
  "environment \<Rightarrow> orchestrator \<Rightarrow> startup_idea \<Rightarrow> payload \<Rightarrow> payload \<Rightarrow> payload
   \<Rightarrow> (error + payload) \<times> orchestrator"
where
  "approval_stage env self i market_data competitor_data persona_data =
     (if human_in_the_loop self then
        (case get_human_feedback env self
                ''Review the market research, competitor analysis, and customer personas. Proceed with MVP planning?''
                (Some [''proceed'', ''stop'']) of
           (Inl e, self') \<Rightarrow> (Inl e, self')
         | (Inr approval, self') \<Rightarrow>
             if approval \<noteq> ''proceed'' then
               (case generate_interim_report env self' i market_data competitor_data persona_data of
                  (report, self'') \<Rightarrow> (Inr report, self''))
             else mvp_stage env self' i market_data competitor_data persona_data)
      else mvp_stage env self i market_data competitor_data persona_data)"

definition persona_stage ::
  "environment \<Rightarrow> orchestrator \<Rightarrow> startup_idea \<Rightarrow> payload \<Rightarrow> payload
   \<Rightarrow> (error + payload) \<times> orchestrator"
where
  "persona_stage env self i market_data competitor_data =
     (case run_agent self ''customer_persona_generator''
             [(''idea'', PDict (idea_dict i)),
              (''market_data'', PDict market_data),
              (''competitor_data'', PDict competitor_data)] of
        (Inl e, self') \<Rightarrow> (Inl e, self')
      | (Inr None, self') \<Rightarrow> (Inl AttributeError, self')
      | (Inr (Some persona_result), self') \<Rightarrow>
          if \<not> success persona_result then
            (Inr (generate_error_report env ''Customer persona generation failed'' i
                    (Some market_data) (Some competitor_data) None), self')
          else
            approval_stage env
              (save_result ''customer_personas'' (Raw (content persona_result)) self')
              i market_data competitor_data (content persona_result))"

definition competitor_stage ::
  "environment \<Rightarrow> orchestrator \<Rightarrow> startup_idea \<Rightarrow> payload \<Rightarrow> (error + payload) \<times> orchestrator"
where
  "competitor_stage env self i market_data =
     (case run_agent self ''competitor_analyzer''
             [(''idea'', PDict (idea_dict i)),
              (''market_data'', PDict market_data)] of
        (Inl e, self') \<Rightarrow> (Inl e, self')
      | (Inr None, self') \<Rightarrow> (Inl AttributeError, self')
      | (Inr (Some competitor_result), self') \<Rightarrow>
          if \<not> success competitor_result then
            (Inr (generate_error_report env ''Competitor analysis failed'' i
                    (Some market_data) None None), self')
          else
            persona_stage env
              (save_result ''competitor_analysis'' (Raw (content competitor_result)) self')
              i market_data (content competitor_result))"

definition workflow_full_validation ::
  "environment \<Rightarrow> orchestrator \<Rightarrow> payload \<Rightarrow> (error + payload) \<times> orchestrator"
where
  "workflow_full_validation env self input_data =
     (case parse_startup_idea env input_data of
        Inl e \<Rightarrow> (Inl e, self)
      | Inr i \<Rightarrow>
          (case run_agent self ''market_researcher''
                  [(''idea'', PDict (idea_dict i)),
                   (''search_terms'', payload_get input_data ''search_terms'' (PList []))] of
             (Inl e, self') \<Rightarrow> (Inl e, self')
           | (Inr None, self') \<Rightarrow> (Inl AttributeError, self')
           | (Inr (Some market_result), self') \<Rightarrow>
               if \<not> success market_result then
                 (Inr (generate_error_report env ''Market research failed'' i None None None),
                  self')
               else
                 competitor_stage env
                   (save_result ''market_research'' (Raw (content market_result)) self')
                   i (content market_result)))"

text \<open>\<open>workflow_market_only\<close>.\<close>

definition workflow_market_only ::
  "environment \<Rightarrow> orchestrator \<Rightarrow> payload \<Rightarrow> (error + payload) \<times> orchestrator"
where
  "workflow_market_only env self input_data =
     (case parse_startup_idea env input_data of
        Inl e \<Rightarrow> (Inl e, self)
      | Inr i \<Rightarrow>
          (case run_agent self ''market_researcher''
                  [(''idea'', PDict (idea_dict i)),
                   (''search_terms'', payload_get input_data ''search_terms'' (PList []))] of
             (Inl e, self') \<Rightarrow> (Inl e, self')
           | (Inr None, self') \<Rightarrow> (Inl AttributeError, self')
           | (Inr (Some market_result), self') \<Rightarrow>
               if \<not> success market_result then
                 (Inr (generate_error_report env ''Market research failed'' i None None None),
                  self')
               else
                 (let report =
                    [(''idea'', PDict (idea_dict i)),
                     (''market_analysis'', PDict (content market_result)),
                     (''timestamp'', PStr (now_isoformat env))]
                  in (Inr report, save_result ''market_only_report'' (Raw report) self'))))"

text \<open>\<open>', '.join(keys)\<close>.\<close>

fun join_comma :: "string list \<Rightarrow> string" where
  "join_comma [] = []"
| "join_comma [k] = k"
| "join_comma (k # ks) = k @ '', '' @ join_comma ks"

text \<open>
  \<open>workflow_mvp_only\<close>. The three subscripts of \<open>input_data\<close> are reached only when no
  required key is missing.
\<close>

definition workflow_mvp_only ::
  "environment \<Rightarrow> orchestrator \<Rightarrow> payload \<Rightarrow> (error + payload) \<times> orchestrator"
where
  "workflow_mvp_only env self input_data =
     (case parse_startup_idea env input_data of
        Inl e \<Rightarrow> (Inl e, self)
      | Inr i \<Rightarrow>
          (let missing_keys =
                 filter (\<lambda>key. map_of input_data key = None)
                   [''market_data'', ''competitor_data'', ''customer_personas'']
           in if missing_keys \<noteq> [] then
                (Inr [(''error'', PStr (''Missing required data: '' @ join_comma missing_keys)),
                      (''success'', PBool False)], self)
              else
                (case (getitem (PDict input_data) ''market_data'',
                       getitem (PDict input_data) ''competitor_data'',
                       getitem (PDict input_data) ''customer_personas'') of
                   (Inr market_data, Inr competitor_data, Inr personas) \<Rightarrow>
                     (case run_agent self ''mvp_planner''
                             [(''idea'', PDict (idea_dict i)),
                              (''market_data'', market_data),
                              (''competitor_data'', competitor_data),
                              (''customer_personas'', personas)] of
                        (Inl e, self') \<Rightarrow> (Inl e, self')
                      | (Inr None, self') \<Rightarrow> (Inl AttributeError, self')
                      | (Inr (Some mvp_result), self') \<Rightarrow>
                          if \<not> success mvp_result then
                            (Inr [(''error'', PStr ''MVP planning failed''),
                                  (''success'', PBool False)], self')
                          else
                            (let report =
                               [(''idea'', PDict (idea_dict i)),
                                (''mvp_plan'', PDict (content mvp_result)),
                                (''timestamp'', PStr (now_isoformat env))]
                             in (Inr report,
                                 save_result ''mvp_only_report'' (Raw report) self')))
                 | _ \<Rightarrow> (Inl KeyError, self))))"

section \<open>Outcomes of attempts, construction and test collaborators\<close>

text \<open>An attempt fails when it times out or raises; \<open>failure_text\<close> is \<open>str(e)\<close> of its exception.\<close>

fun is_failure :: "'r outcome \<Rightarrow> bool" where
  "is_failure (Returns r) = False"
| "is_failure TimesOut = True"
| "is_failure (Raises text) = True"

fun failure_text :: "'r outcome \<Rightarrow> string" where
  "failure_text (Raises text) = text"
| "failure_text TimesOut = timeout_text"
| "failure_text (Returns r) = []"

text \<open>
  \<open>BaseOrchestrator.__init__\<close> with the default \<open>OrchestratorConfig\<close>, and the two
  registration methods.
\<close>

definition init_orchestrator :: orchestrator where
  "init_orchestrator =
     \<lparr>save_intermediate_results = True, human_in_the_loop = False, max_retries = 3,
      agents = Map.empty, tools = Map.empty, current_workflow = None,
      results_store = Map.empty, agent_calls = (\<lambda>name. 0), tool_calls = (\<lambda>name. 0),
      console_input = []\<rparr>"

definition register_agent :: "orchestrator \<Rightarrow> string \<Rightarrow> agent \<Rightarrow> orchestrator" where
  "register_agent self name agent_instance = self\<lparr>agents := (agents self)(name \<mapsto> agent_instance)\<rparr>"

definition register_tool :: "orchestrator \<Rightarrow> string \<Rightarrow> tool \<Rightarrow> orchestrator" where
  "register_tool self name tool_instance = self\<lparr>tools := (tools self)(name \<mapsto> tool_instance)\<rparr>"

text \<open>Collaborators with a fixed behaviour, for the concrete runs below.\<close>

definition always_times_out :: "nat \<Rightarrow> payload \<Rightarrow> 'r outcome" where
  "always_times_out k x = TimesOut"

definition always_raises :: "string \<Rightarrow> nat \<Rightarrow> payload \<Rightarrow> 'r outcome" where
  "always_raises text k x = Raises text"

definition always_returns :: "'r \<Rightarrow> nat \<Rightarrow> payload \<Rightarrow> 'r outcome" where
  "always_returns r k x = Returns r"

text \<open>
  The value returned by the first attempt that returns among the first \<open>n\<close> attempts, if
  there is one.
\<close>

fun first_return :: "(nat \<Rightarrow> 'r outcome) \<Rightarrow> nat \<Rightarrow> 'r option" where
  "first_return attempt 0 = None"
| "first_return attempt (Suc n) =
     (case attempt 0 of
        Returns r \<Rightarrow> Some r
      | TimesOut \<Rightarrow> first_return (\<lambda>k. attempt (Suc k)) n
      | Raises text \<Rightarrow> first_return (\<lambda>k. attempt (Suc k)) n)"

definition flaky :: "nat \<Rightarrow> 'r \<Rightarrow> nat \<Rightarrow> payload \<Rightarrow> 'r outcome" where
  "flaky failures r k x = (if k < failures then TimesOut else Returns r)"

text \<open>
  An environment for the concrete runs below: a constructor that accepts a dict with a
  string \<open>name\<close> and a string \<open>description\<close> and reads the optional fields that are
  strings, a persona validator that accepts a list of dicts, a fixed clock, a console
  that understands the digits 1 and 2, a writable report directory, and the two general
  recommendations of the source.
\<close>

definition str_field :: "payload \<Rightarrow> string \<Rightarrow> string option" where
  "str_field d k = (case map_of d k of Some (PStr s) \<Rightarrow> Some s | _ \<Rightarrow> None)"

definition example_construct_idea :: "payload \<Rightarrow> startup_idea option" where
  "example_construct_idea d =
     (case (str_field d ''name'', str_field d ''description'') of
        (Some n, Some t) \<Rightarrow>
          Some \<lparr>idea_name = n, idea_description = t,
                target_audience = str_field d ''target_audience'',
                industry = str_field d ''industry'',
                problem_statement = str_field d ''problem_statement'',
                solution = str_field d ''solution'',
                revenue_model = str_field d ''revenue_model'',
                initial_thoughts = str_field d ''initial_thoughts''\<rparr>
      | _ \<Rightarrow> None)"

definition example_validate_personas :: "pyval \<Rightarrow> pyval list option" where
  "example_validate_personas v =
     (case v of PList xs \<Rightarrow> (if list_all is_dict xs then Some xs else None) | _ \<Rightarrow> None)"

definition example_parse_int :: "string \<Rightarrow> int option" where
  "example_parse_int line =
     (if line = ''1'' then Some 1 else if line = ''2'' then Some 2 else None)"

definition general_recommendations ::
  "payload \<Rightarrow> payload \<Rightarrow> payload \<Rightarrow> payload \<Rightarrow> error + string list" where
  "general_recommendations m c p v =
     Inr [''Validate your assumptions with real customer interviews before building the MVP.'',
          ''Consider running small experiments to test key hypotheses about your target market.'']"

definition example_environment :: environment where
  "example_environment =
     \<lparr>construct_idea = example_construct_idea,
      validate_personas = example_validate_personas,
      now_isoformat = ''2024-05-01T12:00:00'',
      parse_int = example_parse_int,
      report_file_written = True,
      generate_recommendations = general_recommendations\<rparr>"

definition example_input :: payload where
  "example_input =
     [(''name'', PStr ''EcoMeal''),
      (''description'', PStr ''Sustainable meal kits from local farms'')]"

text \<open>
  The \<open>validation_score\<close> entry of a returned report, when the report has one, is a
  number from 0 to 100.
\<close>

definition score_field_ok :: "payload \<Rightarrow> bool" where
  "score_field_ok report =
     (case map_of report ''validation_score'' of
        None \<Rightarrow> True
      | Some x \<Rightarrow> (case x of PNum r \<Rightarrow> 0 \<le> r \<and> r \<le> 100 | _ \<Rightarrow> False))"

section \<open>Properties of the validation score\<close>

lemmas score_defs = calculate_validation_score_def score_before_clamp_def
  market_factors_def market_size_step_def
  growth_rate_step_def competitor_factors_def market_gaps_step_def persona_factors_def
  pain_level_step_def willingness_step_def mvp_factors_def development_time_step_def
  cost_estimate_step_def and_then_def



























subsection \<open>C2: the worked example scores 100\<close>

text \<open>
  Claim C2. With growth rate 25 and market size 2000000000, a competitor list without
  any entry of type direct, exactly one market gap, a first persona with pain level high
  and willingness to pay high, 5 weeks of development time and a minimum cost of 10000,
  the adjustments are 50 + 10 (size) + 10 (growth) + 5 (no direct competitor) + 5 (gap)
  + 10 (pain) + 5 (willingness to pay) + 5 (time) + 5 (cost): the score before the clamp
  is 105 and \<open>_calculate_validation_score\<close> returns 100.
\<close>

theorem example_scores_100:
  "count_direct cs = Inr 0 \<Longrightarrow>
   market_size_step
     (PDict [(''growth_rate'', PNum 25), (''market_size'', PNum 2000000000)]) 50 = Inr 60 \<and>
   growth_rate_step
     (PDict [(''growth_rate'', PNum 25), (''market_size'', PNum 2000000000)]) 60 = Inr 70 \<and>
   competitor_factors [(''competitors'', PList cs)] 70 = Inr 75 \<and>
   market_gaps_step [(''competitors'', PList cs), (''market_gaps'', PList [gap])] 75 = Inr 80 \<and>
   pain_level_step
     (PList [PDict [(''pain_level'', PStr ''high''), (''willingness_to_pay'', PStr ''high'')]])
     80 = Inr 90 \<and>
   willingness_step
     (PList [PDict [(''pain_level'', PStr ''high''), (''willingness_to_pay'', PStr ''high'')]])
     90 = Inr 95 \<and>
   development_time_step
     [(''development_time'', PDict [(''weeks'', PNum 5)]),
      (''cost_estimate'', PDict [(''min'', PNum 10000)])] 95 = Inr 100 \<and>
   cost_estimate_step
     [(''development_time'', PDict [(''weeks'', PNum 5)]),
      (''cost_estimate'', PDict [(''min'', PNum 10000)])] 100 = Inr 105 \<and>
   score_before_clamp
     [(''market_trends'', PDict [(''growth_rate'', PNum 25), (''market_size'', PNum 2000000000)])]
     [(''competitors'', PList cs), (''market_gaps'', PList [gap])]
     [(''personas'', PList [PDict [(''pain_level'', PStr ''high''),
                                    (''willingness_to_pay'', PStr ''high'')]])]
     [(''development_time'', PDict [(''weeks'', PNum 5)]),
      (''cost_estimate'', PDict [(''min'', PNum 10000)])]
   = Inr 105 \<and>
   calculate_validation_score
     [(''market_trends'', PDict [(''growth_rate'', PNum 25), (''market_size'', PNum 2000000000)])]
     [(''competitors'', PList cs), (''market_gaps'', PList [gap])]
     [(''personas'', PList [PDict [(''pain_level'', PStr ''high''),
                                    (''willingness_to_pay'', PStr ''high'')]])]
     [(''development_time'', PDict [(''weeks'', PNum 5)]),
      (''cost_estimate'', PDict [(''min'', PNum 10000)])]
   = Inr 100"
  by (simp add: score_defs)

theorem example_scores_100_witness:
  "count_direct [PDict [(''type'', PStr ''indirect''), (''name'', PStr ''Acme'')]] = Inr 0 \<and>
   score_before_clamp
     [(''market_trends'', PDict [(''growth_rate'', PNum 25), (''market_size'', PNum 2000000000)])]
     [(''competitors'', PList [PDict [(''type'', PStr ''indirect''), (''name'', PStr ''Acme'')]]),
      (''market_gaps'', PList [PStr ''no offline mode''])]
     [(''personas'', PList [PDict [(''pain_level'', PStr ''high''),
                                    (''willingness_to_pay'', PStr ''high'')]])]
     [(''development_time'', PDict [(''weeks'', PNum 5)]),
      (''cost_estimate'', PDict [(''min'', PNum 10000)])]
   = Inr 105 \<and>
   calculate_validation_score
     [(''market_trends'', PDict [(''growth_rate'', PNum 25), (''market_size'', PNum 2000000000)])]
     [(''competitors'', PList [PDict [(''type'', PStr ''indirect''), (''name'', PStr ''Acme'')]]),
      (''market_gaps'', PList [PStr ''no offline mode''])]
     [(''personas'', PList [PDict [(''pain_level'', PStr ''high''),
                                    (''willingness_to_pay'', PStr ''high'')]])]
     [(''development_time'', PDict [(''weeks'', PNum 5)]),
      (''cost_estimate'', PDict [(''min'', PNum 10000)])]
   = Inr 100"
proof -
  have none: "count_direct [PDict [(''type'', PStr ''indirect''), (''name'', PStr ''Acme'')]] = Inr 0"
    by (simp add: and_then_def)
  from none example_scores_100 [OF none, of "PStr ''no offline mode''"] show ?thesis by simp
qed

subsection \<open>C3: a negative growth rate\<close>

text \<open>
  Claim C3 says that a growth rate below 0, with no other score field present, gives
  the score 40. The source tests \<open>growth_rate < 5\<close> before \<open>growth_rate < 0\<close>, so the
  branch that subtracts 10 is never taken: every negative growth rate gives 45.
\<close>

theorem negative_growth_scores_45:
  "calculate_validation_score
     [(''market_trends'', PDict [(''growth_rate'', PNum (- 1))])] [] [] [] = Inr 45"
  by (simp add: score_defs)

lemma every_negative_growth_scores_45:
  "g < 0 \<Longrightarrow>
   calculate_validation_score [(''market_trends'', PDict [(''growth_rate'', PNum g)])] [] [] []
   = Inr 45"
  by (simp add: score_defs)

subsection \<open>C4: absent fields\<close>





section \<open>Properties of the execution guard\<close>

lemmas fixture_defs = init_orchestrator_def register_agent_def register_tool_def
  always_times_out_def always_raises_def always_returns_def flaky_def timeout_text_def

lemma checkpoint_agent_calls [simp]: "agent_calls (checkpoint name r s) = agent_calls s"
  by (simp add: checkpoint_def save_result_def split: option.splits)

lemma checkpoint_tool_calls [simp]: "tool_calls (checkpoint name r s) = tool_calls s"
  by (simp add: checkpoint_def save_result_def split: option.splits)

lemma agent_attempts_calls:
  "agent_attempts agent name inp xs s = (r, s') \<Longrightarrow>
   agent_calls s name \<le> agent_calls s' name \<and>
   agent_calls s' name \<le> agent_calls s name + length xs \<and>
   (xs \<noteq> [] \<longrightarrow> agent_calls s name < agent_calls s' name)"
proof (induction xs arbitrary: s)
  case Nil
  then show ?case by simp
next
  case (Cons attempt rest)
  let ?called = "s\<lparr>agent_calls := (agent_calls s)(name := Suc (agent_calls s name))\<rparr>"
  have called: "agent_calls ?called name = Suc (agent_calls s name)" by simp
  show ?case
  proof (cases "is_failure (agent (agent_calls s name) inp) \<and> int attempt \<noteq> max_retries s - 1")
    case True
    with Cons.prems have "agent_attempts agent name inp rest ?called = (r, s')"
      by (auto simp: Let_def split: outcome.splits)
    from Cons.IH [OF this] called show ?thesis by auto
  next
    case False
    with Cons.prems have "agent_calls s' name = Suc (agent_calls s name)"
      by (auto simp: Let_def split: outcome.splits if_splits)
    then show ?thesis by simp
  qed
qed

lemma agent_attempts_fell_through:
  "agent_attempts agent name inp [i..<n] s = (Fell_through, s') \<Longrightarrow>
   int n = max_retries s \<Longrightarrow> n \<le> i"
proof (induction "n - i" arbitrary: i s)
  case 0
  then show ?case by simp
next
  case (Suc d)
  then have lt: "i < n" by simp
  let ?called = "s\<lparr>agent_calls := (agent_calls s)(name := Suc (agent_calls s name))\<rparr>"
  have step: "[i..<n] = i # [Suc i..<n]" using lt by (simp add: upt_conv_Cons)
  show ?case
  proof (cases "int i = max_retries s - 1")
    case True
    with Suc.prems step show ?thesis
      by (auto simp: Let_def split: outcome.splits)
  next
    case False
    with Suc.prems step have rec: "agent_attempts agent name inp [Suc i..<n] ?called = (Fell_through, s')"
      by (auto simp: Let_def split: outcome.splits)
    have "d = n - Suc i" using Suc.hyps(2) by simp
    from Suc.hyps(1) [OF this rec] Suc.prems(2) have "n \<le> Suc i" by simp
    with lt have "n = Suc i" by simp
    with False Suc.prems(2) show ?thesis by simp
  qed
qed

lemma agent_attempts_returns:
  "i + j < n \<Longrightarrow> int n = max_retries s \<Longrightarrow>
   \<forall>k<j. is_failure (agent (agent_calls s name + k) inp) \<Longrightarrow>
   agent (agent_calls s name + j) inp = Returns r \<Longrightarrow>
   agent_attempts agent name inp [i..<n] s =
     (Returned (wrap_output name r),
      checkpoint name r (s\<lparr>agent_calls := (agent_calls s)(name := Suc (agent_calls s name + j))\<rparr>))"
proof (induction j arbitrary: i s)
  case 0
  then have step: "[i..<n] = i # [Suc i..<n]" by (simp add: upt_conv_Cons)
  from "0.prems"(4) have "agent (agent_calls s name) inp = Returns r" by simp
  then show ?case by (subst step) (simp add: Let_def)
next
  case (Suc j)
  let ?c = "agent_calls s name"
  let ?called = "s\<lparr>agent_calls := (agent_calls s)(name := Suc ?c)\<rparr>"
  have step: "[i..<n] = i # [Suc i..<n]" using Suc.prems(1) by (simp add: upt_conv_Cons)
  from Suc.prems(3) have first: "is_failure (agent ?c inp)" by force
  from Suc.prems(1,2) have notlast: "int i \<noteq> max_retries s - 1" by simp
  have lt: "Suc i + j < n" using Suc.prems(1) by simp
  have mr: "int n = max_retries ?called" using Suc.prems(2) by simp
  have rest: "\<forall>k<j. is_failure (agent (agent_calls ?called name + k) inp)"
  proof (intro allI impI)
    fix k assume "k < j"
    then have "Suc k < Suc j" by simp
    with Suc.prems(3) have "is_failure (agent (?c + Suc k) inp)" by blast
    then show "is_failure (agent (agent_calls ?called name + k) inp)" by simp
  qed
  have ret: "agent (agent_calls ?called name + j) inp = Returns r" using Suc.prems(4) by simp
  have st: "?called\<lparr>agent_calls := (agent_calls ?called)(name := Suc (agent_calls ?called name + j))\<rparr>
      = s\<lparr>agent_calls := (agent_calls s)(name := Suc (?c + Suc j))\<rparr>" by simp
  have rec: "agent_attempts agent name inp [Suc i..<n] ?called =
     (Returned (wrap_output name r),
      checkpoint name r (s\<lparr>agent_calls := (agent_calls s)(name := Suc (?c + Suc j))\<rparr>))"
    using Suc.IH [OF lt mr rest ret] unfolding st .
  have "agent_attempts agent name inp (i # [Suc i..<n]) s =
        agent_attempts agent name inp [Suc i..<n] ?called"
    using notlast first by (cases "agent ?c inp") (simp_all add: Let_def)
  with rec show ?case by (subst step) simp
qed

lemma agent_attempts_exhausted:
  "i < n \<Longrightarrow> int n = max_retries s \<Longrightarrow>
   \<forall>k<n - i. is_failure (agent (agent_calls s name + k) inp) \<Longrightarrow>
   agent_attempts agent name inp [i..<n] s =
     (Raised (failure_text (agent (agent_calls s name + (n - Suc i)) inp)),
      s\<lparr>agent_calls := (agent_calls s)(name := agent_calls s name + (n - i))\<rparr>)"
proof (induction "n - i" arbitrary: i s)
  case 0
  then show ?case by simp
next
  case (Suc d)
  let ?c = "agent_calls s name"
  let ?called = "s\<lparr>agent_calls := (agent_calls s)(name := Suc ?c)\<rparr>"
  have step: "[i..<n] = i # [Suc i..<n]" using Suc.prems(1) by (simp add: upt_conv_Cons)
  from Suc.prems(1,3) have first: "is_failure (agent ?c inp)" by force
  show ?case
  proof (cases "int i = max_retries s - 1")
    case True
    with Suc.prems(2) have last: "n = Suc i" by simp
    have "agent_attempts agent name inp (i # [Suc i..<n]) s =
          (Raised (failure_text (agent ?c inp)), ?called)"
      using True first by (cases "agent ?c inp") (simp_all add: Let_def)
    with last show ?thesis by (subst step) simp
  next
    case False
    with Suc.prems(1,2) have lt: "Suc i < n" by simp
    have d: "d = n - Suc i" using Suc.hyps(2) by simp
    have mr: "int n = max_retries ?called" using Suc.prems(2) by simp
    have rest: "\<forall>k<n - Suc i. is_failure (agent (agent_calls ?called name + k) inp)"
    proof (intro allI impI)
      fix k assume "k < n - Suc i"
      then have "Suc k < n - i" by simp
      with Suc.prems(3) have "is_failure (agent (?c + Suc k) inp)" by blast
      then show "is_failure (agent (agent_calls ?called name + k) inp)" by simp
    qed
    have idx: "agent_calls ?called name + (n - Suc (Suc i)) = ?c + (n - Suc i)"
      using lt by simp
    have ac: "agent_calls ?called name = Suc ?c" by simp
    have tot: "Suc ?c + (n - Suc i) = ?c + (n - i)" using lt by arith
    have twice: "?called\<lparr>agent_calls := (agent_calls ?called)(name := x)\<rparr>
      = s\<lparr>agent_calls := (agent_calls s)(name := x)\<rparr>" for x by simp
    have st: "?called\<lparr>agent_calls := (agent_calls ?called)(name := agent_calls ?called name + (n - Suc i))\<rparr>
      = s\<lparr>agent_calls := (agent_calls s)(name := ?c + (n - i))\<rparr>"
      by (simp only: ac tot twice)
    have rec: "agent_attempts agent name inp [Suc i..<n] ?called =
      (Raised (failure_text (agent (?c + (n - Suc i)) inp)),
       s\<lparr>agent_calls := (agent_calls s)(name := ?c + (n - i))\<rparr>)"
      using Suc.hyps(1) [OF d lt mr rest] unfolding idx st .
    have "agent_attempts agent name inp (i # [Suc i..<n]) s =
          agent_attempts agent name inp [Suc i..<n] ?called"
      using False first by (cases "agent ?c inp") (simp_all add: Let_def)
    with rec show ?thesis by (subst step) simp
  qed
qed

lemma tool_attempts_returns:
  "i + j < n \<Longrightarrow> int n = max_retries s \<Longrightarrow>
   \<forall>k<j. is_failure (tool (tool_calls s name + k) kw) \<Longrightarrow>
   tool (tool_calls s name + j) kw = Returns r \<Longrightarrow>
   tool_attempts tool name kw [i..<n] s =
     (Returned r,
      checkpoint name (Raw r) (s\<lparr>tool_calls := (tool_calls s)(name := Suc (tool_calls s name + j))\<rparr>))"
proof (induction j arbitrary: i s)
  case 0
  then have step: "[i..<n] = i # [Suc i..<n]" by (simp add: upt_conv_Cons)
  from "0.prems"(4) have "tool (tool_calls s name) kw = Returns r" by simp
  then show ?case by (subst step) (simp add: Let_def)
next
  case (Suc j)
  let ?c = "tool_calls s name"
  let ?called = "s\<lparr>tool_calls := (tool_calls s)(name := Suc ?c)\<rparr>"
  have step: "[i..<n] = i # [Suc i..<n]" using Suc.prems(1) by (simp add: upt_conv_Cons)
  from Suc.prems(3) have first: "is_failure (tool ?c kw)" by force
  from Suc.prems(1,2) have notlast: "int i \<noteq> max_retries s - 1" by simp
  have lt: "Suc i + j < n" using Suc.prems(1) by simp
  have mr: "int n = max_retries ?called" using Suc.prems(2) by simp
  have rest: "\<forall>k<j. is_failure (tool (tool_calls ?called name + k) kw)"
  proof (intro allI impI)
    fix k assume "k < j"
    then have "Suc k < Suc j" by simp
    with Suc.prems(3) have "is_failure (tool (?c + Suc k) kw)" by blast
    then show "is_failure (tool (tool_calls ?called name + k) kw)" by simp
  qed
  have ret: "tool (tool_calls ?called name + j) kw = Returns r" using Suc.prems(4) by simp
  have st: "?called\<lparr>tool_calls := (tool_calls ?called)(name := Suc (tool_calls ?called name + j))\<rparr>
      = s\<lparr>tool_calls := (tool_calls s)(name := Suc (?c + Suc j))\<rparr>" by simp
  have rec: "tool_attempts tool name kw [Suc i..<n] ?called =
     (Returned r,
      checkpoint name (Raw r) (s\<lparr>tool_calls := (tool_calls s)(name := Suc (?c + Suc j))\<rparr>))"
    using Suc.IH [OF lt mr rest ret] unfolding st .
  have "tool_attempts tool name kw (i # [Suc i..<n]) s =
        tool_attempts tool name kw [Suc i..<n] ?called"
    using notlast first by (cases "tool ?c kw") (simp_all add: Let_def)
  with rec show ?case by (subst step) simp
qed

lemma tool_attempts_exhausted:
  "i < n \<Longrightarrow> int n = max_retries s \<Longrightarrow>
   \<forall>k<n - i. is_failure (tool (tool_calls s name + k) kw) \<Longrightarrow>
   tool_attempts tool name kw [i..<n] s =
     (Raised (failure_text (tool (tool_calls s name + (n - Suc i)) kw)),
      s\<lparr>tool_calls := (tool_calls s)(name := tool_calls s name + (n - i))\<rparr>)"
proof (induction "n - i" arbitrary: i s)
  case 0
  then show ?case by simp
next
  case (Suc d)
  let ?c = "tool_calls s name"
  let ?called = "s\<lparr>tool_calls := (tool_calls s)(name := Suc ?c)\<rparr>"
  have step: "[i..<n] = i # [Suc i..<n]" using Suc.prems(1) by (simp add: upt_conv_Cons)
  from Suc.prems(1,3) have first: "is_failure (tool ?c kw)" by force
  show ?case
  proof (cases "int i = max_retries s - 1")
    case True
    with Suc.prems(2) have last: "n = Suc i" by simp
    have "tool_attempts tool name kw (i # [Suc i..<n]) s =
          (Raised (failure_text (tool ?c kw)), ?called)"
      using True first by (cases "tool ?c kw") (simp_all add: Let_def)
    with last show ?thesis by (subst step) simp
  next
    case False
    with Suc.prems(1,2) have lt: "Suc i < n" by simp
    have d: "d = n - Suc i" using Suc.hyps(2) by simp
    have mr: "int n = max_retries ?called" using Suc.prems(2) by simp
    have rest: "\<forall>k<n - Suc i. is_failure (tool (tool_calls ?called name + k) kw)"
    proof (intro allI impI)
      fix k assume "k < n - Suc i"
      then have "Suc k < n - i" by simp
      with Suc.prems(3) have "is_failure (tool (?c + Suc k) kw)" by blast
      then show "is_failure (tool (tool_calls ?called name + k) kw)" by simp
    qed
    have idx: "tool_calls ?called name + (n - Suc (Suc i)) = ?c + (n - Suc i)"
      using lt by simp
    have ac: "tool_calls ?called name = Suc ?c" by simp
    have tot: "Suc ?c + (n - Suc i) = ?c + (n - i)" using lt by arith
    have twice: "?called\<lparr>tool_calls := (tool_calls ?called)(name := x)\<rparr>
      = s\<lparr>tool_calls := (tool_calls s)(name := x)\<rparr>" for x by simp
    have st: "?called\<lparr>tool_calls := (tool_calls ?called)(name := tool_calls ?called name + (n - Suc i))\<rparr>
      = s\<lparr>tool_calls := (tool_calls s)(name := ?c + (n - i))\<rparr>"
      by (simp only: ac tot twice)
    have rec: "tool_attempts tool name kw [Suc i..<n] ?called =
      (Raised (failure_text (tool (?c + (n - Suc i)) kw)),
       s\<lparr>tool_calls := (tool_calls s)(name := ?c + (n - i))\<rparr>)"
      using Suc.hyps(1) [OF d lt mr rest] unfolding idx st .
    have "tool_attempts tool name kw (i # [Suc i..<n]) s =
          tool_attempts tool name kw [Suc i..<n] ?called"
      using False first by (cases "tool ?c kw") (simp_all add: Let_def)
    with rec show ?thesis by (subst step) simp
  qed
qed

lemma run_agent_returns:
  assumes "agents self name = Some agent" "j < nat (max_retries self)"
    and "\<forall>k<j. is_failure (agent (agent_calls self name + k) inp)"
    and "agent (agent_calls self name + j) inp = Returns r"
  shows "run_agent self name inp =
     (Inr (Some (wrap_output name r)),
      checkpoint name r
        (self\<lparr>agent_calls := (agent_calls self)(name := Suc (agent_calls self name + j))\<rparr>))"
proof -
  from assms(2) have "0 + j < nat (max_retries self)" "int (nat (max_retries self)) = max_retries self"
    by simp_all
  from agent_attempts_returns [of 0 j "nat (max_retries self)" self agent name inp r] this assms
  show ?thesis
    by (simp add: run_agent_def)
qed

lemma run_agent_exhausted:
  assumes "agents self name = Some agent" "1 \<le> max_retries self"
    and "\<forall>k<nat (max_retries self). is_failure (agent (agent_calls self name + k) inp)"
  shows "run_agent self name inp =
     (Inr (Some \<lparr>agent_name = name, message_type = ''error'',
                 content = [(''error'', PStr (failure_text
                    (agent (agent_calls self name + (nat (max_retries self) - 1)) inp)))],
                 success = False, metadata = None\<rparr>),
      self\<lparr>agent_calls := (agent_calls self)(name := agent_calls self name + nat (max_retries self))\<rparr>)"
proof -
  from assms(2) have "0 < nat (max_retries self)" "int (nat (max_retries self)) = max_retries self"
    by simp_all
  from agent_attempts_exhausted [of 0 "nat (max_retries self)" self agent name inp] this assms
  show ?thesis
    by (simp add: run_agent_def)
qed

lemma run_tool_returns:
  assumes "tools self name = Some tool" "j < nat (max_retries self)"
    and "\<forall>k<j. is_failure (tool (tool_calls self name + k) kw)"
    and "tool (tool_calls self name + j) kw = Returns r"
  shows "run_tool self name kw =
     (Inr (Some r),
      checkpoint name (Raw r)
        (self\<lparr>tool_calls := (tool_calls self)(name := Suc (tool_calls self name + j))\<rparr>))"
proof -
  from assms(2) have "0 + j < nat (max_retries self)" "int (nat (max_retries self)) = max_retries self"
    by simp_all
  from tool_attempts_returns [of 0 j "nat (max_retries self)" self tool name kw r] this assms
  show ?thesis
    by (simp add: run_tool_def)
qed

lemma run_tool_exhausted:
  assumes "tools self name = Some tool" "1 \<le> max_retries self"
    and "\<forall>k<nat (max_retries self). is_failure (tool (tool_calls self name + k) kw)"
  shows "run_tool self name kw =
     (Inr (Some [(''status'', PStr ''error''),
                 (''message'', PStr (''Tool execution failed: '' @ failure_text
                    (tool (tool_calls self name + (nat (max_retries self) - 1)) kw)))]),
      self\<lparr>tool_calls := (tool_calls self)(name := tool_calls self name + nat (max_retries self))\<rparr>)"
proof -
  from assms(2) have "0 < nat (max_retries self)" "int (nat (max_retries self)) = max_retries self"
    by simp_all
  from tool_attempts_exhausted [of 0 "nat (max_retries self)" self tool name kw] this assms
  show ?thesis
    by (simp add: run_tool_def)
qed

lemma checkpoint_running:
  "save_intermediate_results s \<Longrightarrow> current_workflow s = Some w \<Longrightarrow> w \<noteq> [] \<Longrightarrow>
   results_store (checkpoint name r s) = (results_store s)(w @ ''_'' @ name \<mapsto> r)"
  by (simp add: checkpoint_def save_result_def)

lemma first_return_None:
  "first_return f n = None \<Longrightarrow> k < n \<Longrightarrow> is_failure (f k)"
proof (induction n arbitrary: f k)
  case 0
  then show ?case by simp
next
  case (Suc n)
  show ?case
  proof (cases k)
    case 0
    with Suc.prems show ?thesis by (cases "f 0") simp_all
  next
    case (Suc k')
    from Suc.prems(1) have "first_return (\<lambda>k. f (Suc k)) n = None"
      by (cases "f 0") simp_all
    from Suc.IH [OF this, of k'] Suc.prems(2) Suc show ?thesis by simp
  qed
qed

lemma first_return_Some:
  "first_return f n = Some r \<Longrightarrow>
   \<exists>j<n. (\<forall>k<j. is_failure (f k)) \<and> f j = Returns r"
proof (induction n arbitrary: f)
  case 0
  then show ?case by simp
next
  case (Suc n)
  show ?case
  proof (cases "is_failure (f 0)")
    case False
    with Suc.prems have "f 0 = Returns r" by (cases "f 0") simp_all
    then show ?thesis by auto
  next
    case True
    with Suc.prems have "first_return (\<lambda>k. f (Suc k)) n = Some r"
      by (cases "f 0") simp_all
    from Suc.IH [OF this] obtain j where j: "j < n" "\<forall>k<j. is_failure (f (Suc k))"
      "f (Suc j) = Returns r" by blast
    have "\<forall>k<Suc j. is_failure (f k)"
    proof (intro allI impI)
      fix k assume "k < Suc j"
      with True j(2) show "is_failure (f k)" by (cases k) simp_all
    qed
    with j show ?thesis by (intro exI [of _ "Suc j"]) simp
  qed
qed

lemma run_agent_fell_through:
  "max_retries self < 1 \<Longrightarrow> agents self name = Some agent \<Longrightarrow>
   run_agent self name inp = (Inr None, self)"
  by (simp add: run_agent_def)

lemma run_tool_fell_through:
  "max_retries self < 1 \<Longrightarrow> tools self name = Some tool \<Longrightarrow>
   run_tool self name kw = (Inr None, self)"
  by (simp add: run_tool_def)

lemma run_agent_store:
  assumes "save_intermediate_results self" "current_workflow self = Some workflow"
    "workflow \<noteq> []" "agents self name = Some agent"
  shows "results_store (snd (run_agent self name inp)) =
     (case first_return (\<lambda>k. agent (agent_calls self name + k) inp) (nat (max_retries self)) of
        None \<Rightarrow> results_store self
      | Some result \<Rightarrow> (results_store self)(workflow @ ''_'' @ name \<mapsto> result))"
proof (cases "first_return (\<lambda>k. agent (agent_calls self name + k) inp) (nat (max_retries self))")
  case None
  show ?thesis
  proof (cases "1 \<le> max_retries self")
    case True
    from first_return_None [OF None]
    have "\<forall>k<nat (max_retries self). is_failure (agent (agent_calls self name + k) inp)"
      by blast
    from run_agent_exhausted [OF assms(4) True this] None show ?thesis by simp
  next
    case False
    then have "max_retries self < 1" by simp
    from run_agent_fell_through [OF this assms(4)] None show ?thesis by simp
  qed
next
  case (Some r)
  from first_return_Some [OF Some] obtain j where j: "j < nat (max_retries self)"
    "\<forall>k<j. is_failure (agent (agent_calls self name + k) inp)"
    "agent (agent_calls self name + j) inp = Returns r" by blast
  from run_agent_returns [OF assms(4) j] Some assms(1,2,3) show ?thesis
    by (simp add: checkpoint_running)
qed

lemma run_tool_store:
  assumes "save_intermediate_results self" "current_workflow self = Some workflow"
    "workflow \<noteq> []" "tools self name = Some tool"
  shows "results_store (snd (run_tool self name kw)) =
     (case first_return (\<lambda>k. tool (tool_calls self name + k) kw) (nat (max_retries self)) of
        None \<Rightarrow> results_store self
      | Some result \<Rightarrow> (results_store self)(workflow @ ''_'' @ name \<mapsto> Raw result))"
proof (cases "first_return (\<lambda>k. tool (tool_calls self name + k) kw) (nat (max_retries self))")
  case None
  show ?thesis
  proof (cases "1 \<le> max_retries self")
    case True
    from first_return_None [OF None]
    have "\<forall>k<nat (max_retries self). is_failure (tool (tool_calls self name + k) kw)"
      by blast
    from run_tool_exhausted [OF assms(4) True this] None show ?thesis by simp
  next
    case False
    then have "max_retries self < 1" by simp
    from run_tool_fell_through [OF this assms(4)] None show ?thesis by simp
  qed
next
  case (Some r)
  from first_return_Some [OF Some] obtain j where j: "j < nat (max_retries self)"
    "\<forall>k<j. is_failure (tool (tool_calls self name + k) kw)"
    "tool (tool_calls self name + j) kw = Returns r" by blast
  from run_tool_returns [OF assms(4) j] Some assms(1,2,3) show ?thesis
    by (simp add: checkpoint_running)
qed

lemma run_tool_result:
  assumes "1 \<le> max_retries self" "tools self name = Some tool"
  shows "fst (run_tool self name kw) =
     (case first_return (\<lambda>k. tool (tool_calls self name + k) kw) (nat (max_retries self)) of
        Some result \<Rightarrow> Inr (Some result)
      | None \<Rightarrow>
          Inr (Some [(''status'', PStr ''error''),
                     (''message'', PStr (''Tool execution failed: '' @ failure_text
                        (tool (tool_calls self name + (nat (max_retries self) - 1)) kw)))]))"
proof (cases "first_return (\<lambda>k. tool (tool_calls self name + k) kw) (nat (max_retries self))")
  case None
  from first_return_None [OF None]
  have "\<forall>k<nat (max_retries self). is_failure (tool (tool_calls self name + k) kw)"
    by blast
  from run_tool_exhausted [OF assms(2,1) this] None show ?thesis by simp
next
  case (Some r)
  from first_return_Some [OF Some] obtain j where j: "j < nat (max_retries self)"
    "\<forall>k<j. is_failure (tool (tool_calls self name + k) kw)"
    "tool (tool_calls self name + j) kw = Returns r" by blast
  from run_tool_returns [OF assms(2) j] Some show ?thesis by simp
qed

lemma run_agent_outcome:
  assumes "1 \<le> max_retries self" and "agents self name = Some agent"
  shows "\<exists>made. 1 \<le> made \<and> int made \<le> max_retries self \<and>
           agent_calls (snd (run_agent self name input_data)) name
             = agent_calls self name + made \<and>
           (\<forall>k<made - 1. is_failure (agent (agent_calls self name + k) input_data)) \<and>
           (is_failure (agent (agent_calls self name + (made - 1)) input_data)
              \<longrightarrow> made = nat (max_retries self)) \<and>
           fst (run_agent self name input_data) =
             (case agent (agent_calls self name + (made - 1)) input_data of
                Returns r \<Rightarrow> Inr (Some (wrap_output name r))
              | TimesOut \<Rightarrow>
                  Inr (Some \<lparr>agent_name = name, message_type = ''error'',
                              content = [(''error'', PStr timeout_text)], success = False,
                              metadata = None\<rparr>)
              | Raises msg \<Rightarrow>
                  Inr (Some \<lparr>agent_name = name, message_type = ''error'',
                              content = [(''error'', PStr msg)], success = False,
                              metadata = None\<rparr>))"
proof (cases "first_return (\<lambda>k. agent (agent_calls self name + k) input_data)
                (nat (max_retries self))")
  case None
  let ?n = "nat (max_retries self)"
  let ?c = "agent_calls self name"
  from first_return_None [OF None]
  have fails: "\<forall>k<?n. is_failure (agent (?c + k) input_data)" by blast
  from assms(1) have n: "1 \<le> ?n" "int ?n = max_retries self" "?n - 1 < ?n" by simp_all
  from fails n(3) have lastf: "is_failure (agent (?c + (?n - 1)) input_data)" by blast
  have run: "run_agent self name input_data =
     (Inr (Some \<lparr>agent_name = name, message_type = ''error'',
                 content = [(''error'', PStr (failure_text (agent (?c + (?n - 1)) input_data)))],
                 success = False, metadata = None\<rparr>),
      self\<lparr>agent_calls := (agent_calls self)(name := ?c + ?n)\<rparr>)"
    using run_agent_exhausted [OF assms(2,1) fails] .
  have calls: "agent_calls (snd (run_agent self name input_data)) name = ?c + ?n"
    unfolding run by simp
  have res: "fst (run_agent self name input_data) =
             (case agent (?c + (?n - 1)) input_data of
                Returns r \<Rightarrow> Inr (Some (wrap_output name r))
              | TimesOut \<Rightarrow>
                  Inr (Some \<lparr>agent_name = name, message_type = ''error'',
                              content = [(''error'', PStr timeout_text)], success = False,
                              metadata = None\<rparr>)
              | Raises msg \<Rightarrow>
                  Inr (Some \<lparr>agent_name = name, message_type = ''error'',
                              content = [(''error'', PStr msg)], success = False,
                              metadata = None\<rparr>))"
    unfolding run using lastf by (cases "agent (?c + (?n - 1)) input_data") simp_all
  have pre: "\<forall>k<?n - 1. is_failure (agent (?c + k) input_data)" using fails by simp
  show ?thesis
    by (rule exI [of _ ?n]) (use n calls pre res in simp)
next
  case (Some r)
  let ?c = "agent_calls self name"
  from first_return_Some [OF Some] obtain j where j: "j < nat (max_retries self)"
    "\<forall>k<j. is_failure (agent (?c + k) input_data)"
    "agent (?c + j) input_data = Returns r" by blast
  have run: "run_agent self name input_data =
     (Inr (Some (wrap_output name r)),
      checkpoint name r (self\<lparr>agent_calls := (agent_calls self)(name := Suc (?c + j))\<rparr>))"
    using run_agent_returns [OF assms(2) j] .
  have calls: "agent_calls (snd (run_agent self name input_data)) name = ?c + Suc j"
    unfolding run by simp
  have res: "fst (run_agent self name input_data) = Inr (Some (wrap_output name r))"
    unfolding run by simp
  have last: "agent (?c + (Suc j - 1)) input_data = Returns r" using j(3) by simp
  have pre: "\<forall>k<Suc j - 1. is_failure (agent (?c + k) input_data)" using j(2) by simp
  have bound: "int (Suc j) \<le> max_retries self" using j(1) by simp
  show ?thesis
  proof (rule exI [of _ "Suc j"], intro conjI)
    show "1 \<le> Suc j" by simp
    show "int (Suc j) \<le> max_retries self" by (rule bound)
    show "agent_calls (snd (run_agent self name input_data)) name = ?c + Suc j" by (rule calls)
    show "\<forall>k<Suc j - 1. is_failure (agent (?c + k) input_data)" by (rule pre)
    show "is_failure (agent (?c + (Suc j - 1)) input_data) \<longrightarrow> Suc j = nat (max_retries self)"
      unfolding last by simp
    show "fst (run_agent self name input_data) =
             (case agent (?c + (Suc j - 1)) input_data of
                Returns r \<Rightarrow> Inr (Some (wrap_output name r))
              | TimesOut \<Rightarrow>
                  Inr (Some \<lparr>agent_name = name, message_type = ''error'',
                              content = [(''error'', PStr timeout_text)], success = False,
                              metadata = None\<rparr>)
              | Raises msg \<Rightarrow>
                  Inr (Some \<lparr>agent_name = name, message_type = ''error'',
                              content = [(''error'', PStr msg)], success = False,
                              metadata = None\<rparr>))"
      unfolding last res by simp
  qed
qed

subsection \<open>C5: between one and max_retries invocations\<close>

text \<open>
  Claim C5 says that with \<open>max_retries\<close> at least 1 every call of \<open>run_agent\<close> invokes
  the collaborator at least once. A call with a name that is not registered raises
  ValueError before any attempt: no agent is invoked.
\<close>

theorem unregistered_agent_counterexample:
  "1 \<le> max_retries
     (register_agent init_orchestrator ''market_researcher'' (always_returns (Raw []))) \<and>
   run_agent (register_agent init_orchestrator ''market_researcher'' (always_returns (Raw [])))
     ''competitor_analyzer'' [(''idea'', PDict [])]
   = (Inl ValueError,
      register_agent init_orchestrator ''market_researcher'' (always_returns (Raw []))) \<and>
   agent_calls (snd (run_agent
     (register_agent init_orchestrator ''market_researcher'' (always_returns (Raw [])))
     ''competitor_analyzer'' [(''idea'', PDict [])])) ''market_researcher'' = 0 \<and>
   agent_calls (snd (run_agent
     (register_agent init_orchestrator ''market_researcher'' (always_returns (Raw [])))
     ''competitor_analyzer'' [(''idea'', PDict [])])) ''competitor_analyzer'' = 0"
  by (simp add: run_agent_def fixture_defs)

text \<open>
  Claim C5 as amended. With \<open>max_retries\<close> at least 1, a call of \<open>run_agent\<close> for a
  registered agent invokes the agent's \<open>process\<close> at least once and at most \<open>max_retries\<close>
  times: every invocation but the last has timed out or raised, and when the last one has
  too, all \<open>max_retries\<close> attempts were made. The call returns the wrapped value that the
  last invocation returned, or else an error output with \<open>success\<close> false that carries
  the text of its exception; so an output with \<open>success\<close> true is always the value
  returned by an invocation. A call with a name that is not registered raises ValueError
  and invokes nothing.
\<close>

theorem guard_invokes_between_one_and_max_retries:
  assumes "1 \<le> max_retries self"
  shows "(agents self unknown = None \<longrightarrow>
            run_agent self unknown input_data = (Inl ValueError, self)) \<and>
         (agents self name = Some agent \<longrightarrow>
            (\<exists>made. 1 \<le> made \<and> int made \<le> max_retries self \<and>
               agent_calls (snd (run_agent self name input_data)) name
                 = agent_calls self name + made \<and>
               (\<forall>k<made - 1. is_failure (agent (agent_calls self name + k) input_data)) \<and>
               (is_failure (agent (agent_calls self name + (made - 1)) input_data)
                  \<longrightarrow> made = nat (max_retries self)) \<and>
               fst (run_agent self name input_data) =
                 (case agent (agent_calls self name + (made - 1)) input_data of
                    Returns r \<Rightarrow> Inr (Some (wrap_output name r))
                  | TimesOut \<Rightarrow>
                      Inr (Some \<lparr>agent_name = name, message_type = ''error'',
                                  content = [(''error'', PStr timeout_text)], success = False,
                                  metadata = None\<rparr>)
                  | Raises msg \<Rightarrow>
                      Inr (Some \<lparr>agent_name = name, message_type = ''error'',
                                  content = [(''error'', PStr msg)], success = False,
                                  metadata = None\<rparr>)) \<and>
               (\<forall>out. fst (run_agent self name input_data) = Inr (Some out) \<and> success out
                  \<longrightarrow> (\<exists>r. agent (agent_calls self name + (made - 1)) input_data = Returns r
                         \<and> out = wrap_output name r))))"
proof (intro conjI impI)
  assume "agents self unknown = None"
  then show "run_agent self unknown input_data = (Inl ValueError, self)"
    by (simp add: run_agent_def)
next
  assume reg: "agents self name = Some agent"
  let ?last = "\<lambda>made. agent (agent_calls self name + (made - 1)) input_data"
  from run_agent_outcome [OF assms reg, of input_data] obtain made where
    m: "1 \<le> made" "int made \<le> max_retries self"
      "agent_calls (snd (run_agent self name input_data)) name = agent_calls self name + made"
      "\<forall>k<made - 1. is_failure (agent (agent_calls self name + k) input_data)"
      "is_failure (?last made) \<longrightarrow> made = nat (max_retries self)"
    and res: "fst (run_agent self name input_data) =
                 (case ?last made of
                    Returns r \<Rightarrow> Inr (Some (wrap_output name r))
                  | TimesOut \<Rightarrow>
                      Inr (Some \<lparr>agent_name = name, message_type = ''error'',
                                  content = [(''error'', PStr timeout_text)], success = False,
                                  metadata = None\<rparr>)
                  | Raises msg \<Rightarrow>
                      Inr (Some \<lparr>agent_name = name, message_type = ''error'',
                                  content = [(''error'', PStr msg)], success = False,
                                  metadata = None\<rparr>))"
    by blast
  have only: "\<forall>out. fst (run_agent self name input_data) = Inr (Some out) \<and> success out
                  \<longrightarrow> (\<exists>r. ?last made = Returns r \<and> out = wrap_output name r)"
    unfolding res by (cases "?last made") auto
  from m res only
  show "\<exists>made. 1 \<le> made \<and> int made \<le> max_retries self \<and>
               agent_calls (snd (run_agent self name input_data)) name
                 = agent_calls self name + made \<and>
               (\<forall>k<made - 1. is_failure (agent (agent_calls self name + k) input_data)) \<and>
               (is_failure (agent (agent_calls self name + (made - 1)) input_data)
                  \<longrightarrow> made = nat (max_retries self)) \<and>
               fst (run_agent self name input_data) =
                 (case agent (agent_calls self name + (made - 1)) input_data of
                    Returns r \<Rightarrow> Inr (Some (wrap_output name r))
                  | TimesOut \<Rightarrow>
                      Inr (Some \<lparr>agent_name = name, message_type = ''error'',
                                  content = [(''error'', PStr timeout_text)], success = False,
                                  metadata = None\<rparr>)
                  | Raises msg \<Rightarrow>
                      Inr (Some \<lparr>agent_name = name, message_type = ''error'',
                                  content = [(''error'', PStr msg)], success = False,
                                  metadata = None\<rparr>)) \<and>
               (\<forall>out. fst (run_agent self name input_data) = Inr (Some out) \<and> success out
                  \<longrightarrow> (\<exists>r. agent (agent_calls self name + (made - 1)) input_data = Returns r
                         \<and> out = wrap_output name r))"
    by (intro exI [of _ made]) blast
qed

theorem guard_invokes_between_one_and_max_retries_witness:
  "1 \<le> max_retries
     (register_agent init_orchestrator ''market_researcher''
        (flaky 1 (Raw [(''market_trends'', PDict [])]))) \<and>
   agents (register_agent init_orchestrator ''market_researcher''
        (flaky 1 (Raw [(''market_trends'', PDict [])]))) ''competitor_analyzer'' = None \<and>
   run_agent (register_agent init_orchestrator ''market_researcher''
        (flaky 1 (Raw [(''market_trends'', PDict [])]))) ''competitor_analyzer'' []
   = (Inl ValueError,
      register_agent init_orchestrator ''market_researcher''
        (flaky 1 (Raw [(''market_trends'', PDict [])]))) \<and>
   agents (register_agent init_orchestrator ''market_researcher''
        (flaky 1 (Raw [(''market_trends'', PDict [])]))) ''market_researcher''
   = Some (flaky 1 (Raw [(''market_trends'', PDict [])])) \<and>
   (\<exists>made. 1 \<le> made \<and> int made \<le> 3 \<and>
      agent_calls (snd (run_agent (register_agent init_orchestrator ''market_researcher''
        (flaky 1 (Raw [(''market_trends'', PDict [])]))) ''market_researcher'' []))
        ''market_researcher'' = made \<and>
      (\<forall>k<made - 1. is_failure
         ((flaky 1 (Raw [(''market_trends'', PDict [])]) :: agent) k [])) \<and>
      (\<exists>r. (flaky 1 (Raw [(''market_trends'', PDict [])]) :: agent) (made - 1) [] = Returns r \<and>
         fst (run_agent (register_agent init_orchestrator ''market_researcher''
           (flaky 1 (Raw [(''market_trends'', PDict [])]))) ''market_researcher'' [])
         = Inr (Some (wrap_output ''market_researcher'' r)))) \<and>
   agent_calls (snd (run_agent (register_agent init_orchestrator ''market_researcher''
        (flaky 1 (Raw [(''market_trends'', PDict [])]))) ''market_researcher'' []))
        ''market_researcher'' = 2 \<and>
   fst (run_agent (register_agent init_orchestrator ''market_researcher''
        (flaky 1 (Raw [(''market_trends'', PDict [])]))) ''market_researcher'' [])
   = Inr (Some \<lparr>agent_name = ''market_researcher'', message_type = ''result'',
                content = [(''market_trends'', PDict [])], success = True, metadata = None\<rparr>)"
proof -
  let ?agent = "flaky 1 (Raw [(''market_trends'', PDict [])]) :: agent"
  let ?self = "register_agent init_orchestrator ''market_researcher'' ?agent"
  let ?run = "run_agent ?self ''market_researcher'' []"
  have retries: "1 \<le> max_retries ?self"
    by (simp add: fixture_defs)
  have unknown: "agents ?self ''competitor_analyzer'' = None"
    and known: "agents ?self ''market_researcher'' = Some ?agent"
    and calls0: "agent_calls ?self ''market_researcher'' = 0"
    and mr: "max_retries ?self = 3"
    by (simp_all add: fixture_defs)
  have calls: "agent_calls (snd ?run) ''market_researcher'' = 2"
    and out: "fst ?run = Inr (Some \<lparr>agent_name = ''market_researcher'', message_type = ''result'',
                content = [(''market_trends'', PDict [])], success = True, metadata = None\<rparr>)"
    by (simp_all add: run_agent_def fixture_defs Let_def upt_rec wrap_output_def checkpoint_def)
  note claim = guard_invokes_between_one_and_max_retries
    [OF retries, of "''competitor_analyzer''" "[]" "''market_researcher''" ?agent]
  from claim unknown
  have raised: "run_agent ?self ''competitor_analyzer'' [] = (Inl ValueError, ?self)" by blast
  from claim known obtain made where m: "1 \<le> made" "int made \<le> max_retries ?self"
    "agent_calls (snd ?run) ''market_researcher''
       = agent_calls ?self ''market_researcher'' + made"
    "\<forall>k<made - 1. is_failure (?agent (agent_calls ?self ''market_researcher'' + k) [])"
    "\<forall>out. fst ?run = Inr (Some out) \<and> success out
       \<longrightarrow> (\<exists>r. ?agent (agent_calls ?self ''market_researcher'' + (made - 1)) [] = Returns r
              \<and> out = wrap_output ''market_researcher'' r)"
    by blast
  from m(5) out obtain r where
    r: "?agent (agent_calls ?self ''market_researcher'' + (made - 1)) [] = Returns r"
       "fst ?run = Inr (Some (wrap_output ''market_researcher'' r))"
    by fastforce
  have ex: "\<exists>made. 1 \<le> made \<and> int made \<le> 3 \<and>
      agent_calls (snd ?run) ''market_researcher'' = made \<and>
      (\<forall>k<made - 1. is_failure (?agent k [])) \<and>
      (\<exists>r. ?agent (made - 1) [] = Returns r \<and>
         fst ?run = Inr (Some (wrap_output ''market_researcher'' r)))"
    using m(1,2,3,4) r unfolding calls0 mr by (intro exI [of _ made]) auto
  from retries unknown raised known ex calls out show ?thesis by blast
qed

subsection \<open>C6: every attempt times out\<close>

text \<open>
  Claim C6 says that when every attempt times out, \<open>run_agent\<close> returns an output with
  \<open>success\<close> false whose error message indicates a timeout and is distinguishable from
  that of an exception. The message is \<open>str(e)\<close> of the timeout error, the empty text,
  and an agent whose every attempt raises an exception with the empty text gets the same
  output.
\<close>

theorem timeout_message_counterexample:
  "fst (run_agent (register_agent init_orchestrator ''market_researcher'' always_times_out)
          ''market_researcher'' [])
   = Inr (Some \<lparr>agent_name = ''market_researcher'', message_type = ''error'',
                content = [(''error'', PStr [])], success = False, metadata = None\<rparr>) \<and>
   fst (run_agent (register_agent init_orchestrator ''market_researcher'' (always_raises []))
          ''market_researcher'' [])
   = Inr (Some \<lparr>agent_name = ''market_researcher'', message_type = ''error'',
                content = [(''error'', PStr [])], success = False, metadata = None\<rparr>)"
  by (simp add: run_agent_def fixture_defs Let_def upt_rec)

text \<open>
  Claim C6 as amended. With \<open>max_retries\<close> at least 1, when every attempt of a registered
  agent times out, \<open>run_agent\<close> raises nothing and returns an output with \<open>success\<close>
  false, message type \<open>error\<close> and content \<open>{"error": str(e)}\<close> for the timeout error
  \<open>e\<close>, after \<open>max_retries\<close> invocations; an agent whose every attempt raises an
  exception with that same text gets the same output.
\<close>

theorem all_timeouts_give_error_output:
  assumes "1 \<le> max_retries self" and "agents self name = Some agent"
    and "\<forall>k<nat (max_retries self). agent (agent_calls self name + k) input_data = TimesOut"
    and "\<forall>k<nat (max_retries self).
           other (agent_calls self name + k) input_data = Raises timeout_text"
  shows "run_agent self name input_data =
           (Inr (Some \<lparr>agent_name = name, message_type = ''error'',
                       content = [(''error'', PStr timeout_text)], success = False,
                       metadata = None\<rparr>),
            self\<lparr>agent_calls :=
              (agent_calls self)(name := agent_calls self name + nat (max_retries self))\<rparr>) \<and>
         fst (run_agent (register_agent self name other) name input_data) =
         fst (run_agent self name input_data)"
proof -
  let ?n = "nat (max_retries self)"
  let ?c = "agent_calls self name"
  from assms(1) have last: "?n - 1 < ?n" by simp
  from assms(3) have fails: "\<forall>k<?n. is_failure (agent (?c + k) input_data)" by simp
  from assms(3) last have lastout: "agent (?c + (?n - 1)) input_data = TimesOut" by blast
  have msg: "failure_text (agent (?c + (?n - 1)) input_data) = timeout_text"
    unfolding lastout by simp
  have one: "run_agent self name input_data =
           (Inr (Some \<lparr>agent_name = name, message_type = ''error'',
                       content = [(''error'', PStr timeout_text)], success = False,
                       metadata = None\<rparr>),
            self\<lparr>agent_calls := (agent_calls self)(name := ?c + ?n)\<rparr>)"
    using run_agent_exhausted [OF assms(2,1) fails] unfolding msg .
  let ?self' = "register_agent self name other"
  have reg: "agents ?self' name = Some other" "max_retries ?self' = max_retries self"
    "agent_calls ?self' = agent_calls self"
    by (simp_all add: register_agent_def)
  from assms(4) reg have fails': "\<forall>k<nat (max_retries ?self').
      is_failure (other (agent_calls ?self' name + k) input_data)" by simp
  from assms(4) last have lastout': "other (?c + (?n - 1)) input_data = Raises timeout_text"
    by blast
  have msg': "failure_text (other (agent_calls ?self' name + (nat (max_retries ?self') - 1)) input_data)
      = timeout_text" unfolding reg lastout' by simp
  from assms(1) reg have mr: "1 \<le> max_retries ?self'" by simp
  have "run_agent ?self' name input_data =
      (Inr (Some \<lparr>agent_name = name, message_type = ''error'',
                       content = [(''error'', PStr timeout_text)], success = False,
                       metadata = None\<rparr>),
       ?self'\<lparr>agent_calls := (agent_calls ?self')(name := agent_calls ?self' name +
          nat (max_retries ?self'))\<rparr>)"
    using run_agent_exhausted [OF reg(1) mr fails'] unfolding msg' .
  then have "fst (run_agent ?self' name input_data) =
      Inr (Some \<lparr>agent_name = name, message_type = ''error'',
                       content = [(''error'', PStr timeout_text)], success = False,
                       metadata = None\<rparr>)"
    by simp
  with one show ?thesis by simp
qed

theorem all_timeouts_give_error_output_witness:
  "1 \<le> max_retries (register_agent init_orchestrator ''mvp_planner'' always_times_out) \<and>
   agents (register_agent init_orchestrator ''mvp_planner'' always_times_out) ''mvp_planner''
     = Some always_times_out \<and>
   fst (run_agent (register_agent init_orchestrator ''mvp_planner'' always_times_out)
          ''mvp_planner'' [(''idea'', PDict [])])
   = Inr (Some \<lparr>agent_name = ''mvp_planner'', message_type = ''error'',
                content = [(''error'', PStr [])], success = False, metadata = None\<rparr>) \<and>
   agent_calls (snd (run_agent (register_agent init_orchestrator ''mvp_planner'' always_times_out)
          ''mvp_planner'' [(''idea'', PDict [])])) ''mvp_planner'' = 3 \<and>
   fst (run_agent (register_agent (register_agent init_orchestrator ''mvp_planner'' always_times_out)
                     ''mvp_planner'' (always_raises timeout_text))
          ''mvp_planner'' [(''idea'', PDict [])])
   = fst (run_agent (register_agent init_orchestrator ''mvp_planner'' always_times_out)
          ''mvp_planner'' [(''idea'', PDict [])])"
  using all_timeouts_give_error_output
    [of "register_agent init_orchestrator ''mvp_planner'' always_times_out" "''mvp_planner''"
        always_times_out "[(''idea'', PDict [])]" "always_raises timeout_text"]
  by (simp add: init_orchestrator_def register_agent_def always_times_out_def
      always_raises_def timeout_text_def)

subsection \<open>C7: what the guard checkpoints\<close>

text \<open>
  Claim C7 says that with persistence enabled and a workflow executing, every guard call
  stores its result under the key of workflow name and collaborator name, also when the
  call fails in the end. When every attempt times out nothing is stored: the save is in
  the branch of the attempt that returns.
\<close>

theorem failed_call_not_checkpointed_counterexample:
  "save_intermediate_results
     ((register_agent init_orchestrator ''market_researcher'' always_times_out)
        \<lparr>current_workflow := Some ''full_validation''\<rparr>) \<and>
   results_store (snd (run_agent
     ((register_agent init_orchestrator ''market_researcher'' always_times_out)
        \<lparr>current_workflow := Some ''full_validation''\<rparr>)
     ''market_researcher'' [])) ''full_validation_market_researcher'' = None \<and>
   results_store (snd (run_tool
     ((register_tool init_orchestrator ''search'' always_times_out)
        \<lparr>current_workflow := Some ''full_validation''\<rparr>)
     ''search'' [])) ''full_validation_search'' = None"
  by (simp add: run_agent_def run_tool_def fixture_defs Let_def upt_rec)

text \<open>
  Claim C7 as amended. With persistence enabled and a workflow with a non-empty name
  executing, a guard call for a registered collaborator stores the value returned by the
  first attempt that returns, as the collaborator returned it and whatever it says about
  success, under the key of workflow name, underscore and collaborator name; when every
  attempt times out or raises, the guard leaves the results store as it was. This holds
  for \<open>run_agent\<close> with a registered agent and for \<open>run_tool\<close> with a registered tool.
\<close>

theorem guard_checkpoints_returned_value:
  assumes "save_intermediate_results self" and "current_workflow self = Some workflow"
    and "workflow \<noteq> []"
  shows "(agents self name = Some agent \<longrightarrow>
            results_store (snd (run_agent self name input_data)) =
              (case first_return (\<lambda>k. agent (agent_calls self name + k) input_data)
                      (nat (max_retries self)) of
                 None \<Rightarrow> results_store self
               | Some result \<Rightarrow> (results_store self)(workflow @ ''_'' @ name \<mapsto> result))) \<and>
         (tools self tool_name = Some tool \<longrightarrow>
            results_store (snd (run_tool self tool_name kwargs)) =
              (case first_return (\<lambda>k. tool (tool_calls self tool_name + k) kwargs)
                      (nat (max_retries self)) of
                 None \<Rightarrow> results_store self
               | Some result \<Rightarrow>
                   (results_store self)(workflow @ ''_'' @ tool_name \<mapsto> Raw result)))"
  using run_agent_store [OF assms, of name agent input_data]
    run_tool_store [OF assms, of tool_name tool kwargs]
  by blast

theorem guard_checkpoints_returned_value_witness:
  "save_intermediate_results
     ((register_agent init_orchestrator ''market_researcher''
         (flaky 1 (Raw [(''market_trends'', PDict [])])))
      \<lparr>current_workflow := Some ''full_validation''\<rparr>) \<and>
   tools ((register_agent init_orchestrator ''market_researcher''
         (flaky 1 (Raw [(''market_trends'', PDict [])])))
      \<lparr>current_workflow := Some ''full_validation''\<rparr>) = Map.empty \<and>
   results_store (snd (run_agent
     ((register_agent init_orchestrator ''market_researcher''
         (flaky 1 (Raw [(''market_trends'', PDict [])])))
      \<lparr>current_workflow := Some ''full_validation''\<rparr>)
     ''market_researcher'' []))
   = [''full_validation_market_researcher'' \<mapsto> Raw [(''market_trends'', PDict [])]] \<and>
   results_store (snd (run_agent
     ((register_agent init_orchestrator ''market_researcher'' always_times_out)
      \<lparr>current_workflow := Some ''full_validation''\<rparr>)
     ''market_researcher'' []))
   = Map.empty \<and>
   agents ((register_tool init_orchestrator ''search'' (always_raises ''connection refused''))
      \<lparr>current_workflow := Some ''market_only''\<rparr>) = Map.empty \<and>
   results_store (snd (run_tool
     ((register_tool init_orchestrator ''search'' (always_raises ''connection refused''))
      \<lparr>current_workflow := Some ''market_only''\<rparr>)
     ''search'' [(''query'', PStr ''meal kits'')]))
   = Map.empty \<and>
   results_store (snd (run_tool
     ((register_tool init_orchestrator ''search''
         (flaky 2 [(''status'', PStr ''success''), (''results'', PList [])]))
      \<lparr>current_workflow := Some ''market_only''\<rparr>)
     ''search'' [(''query'', PStr ''meal kits'')]))
   = [''market_only_search'' \<mapsto> Raw [(''status'', PStr ''success''), (''results'', PList [])]]"
  using guard_checkpoints_returned_value
      [of "(register_agent init_orchestrator ''market_researcher''
             (flaky 1 (Raw [(''market_trends'', PDict [])])))
           \<lparr>current_workflow := Some ''full_validation''\<rparr>"
          "''full_validation''" "''market_researcher''"
          "flaky 1 (Raw [(''market_trends'', PDict [])])" "[]"]
    guard_checkpoints_returned_value
      [of "(register_agent init_orchestrator ''market_researcher'' always_times_out)
           \<lparr>current_workflow := Some ''full_validation''\<rparr>"
          "''full_validation''" "''market_researcher''" always_times_out "[]"]
    guard_checkpoints_returned_value
      [of "(register_tool init_orchestrator ''search'' (always_raises ''connection refused''))
           \<lparr>current_workflow := Some ''market_only''\<rparr>"
          "''market_only''" _ _ _ "''search''" "always_raises ''connection refused''"
          "[(''query'', PStr ''meal kits'')]"]
    guard_checkpoints_returned_value
      [of "(register_tool init_orchestrator ''search''
             (flaky 2 [(''status'', PStr ''success''), (''results'', PList [])]))
           \<lparr>current_workflow := Some ''market_only''\<rparr>"
          "''market_only''" _ _ _ "''search''"
          "flaky 2 [(''status'', PStr ''success''), (''results'', PList [])]"
          "[(''query'', PStr ''meal kits'')]"]
  by (simp add: init_orchestrator_def register_agent_def register_tool_def flaky_def
      always_raises_def always_times_out_def eval_nat_numeral)

subsection \<open>C8: a tool that returns a status-error mapping\<close>

text \<open>
  Claim C8 says that \<open>run_tool\<close> treats a returned mapping with status \<open>error\<close> as a
  failed attempt and retries it. \<open>run_tool\<close> never looks at the status: a tool that
  returns such a mapping is invoked once, although three attempts are allowed, and the
  mapping is returned as it is.
\<close>

theorem status_error_not_retried_counterexample:
  "fst (run_tool
     (register_tool init_orchestrator ''search''
        (always_returns [(''status'', PStr ''error''), (''message'', PStr ''Search failed'')]))
     ''search'' [(''query'', PStr ''meal kits'')])
   = Inr (Some [(''status'', PStr ''error''), (''message'', PStr ''Search failed'')]) \<and>
   tool_calls (snd (run_tool
     (register_tool init_orchestrator ''search''
        (always_returns [(''status'', PStr ''error''), (''message'', PStr ''Search failed'')]))
     ''search'' [(''query'', PStr ''meal kits'')])) ''search'' = 1 \<and>
   max_retries (register_tool init_orchestrator ''search''
        (always_returns [(''status'', PStr ''error''), (''message'', PStr ''Search failed'')])) = 3"
  by (simp add: run_tool_def fixture_defs Let_def upt_rec checkpoint_def)

text \<open>
  Claim C8 as amended. For a registered tool and \<open>max_retries\<close> at least 1, \<open>run_tool\<close>
  returns the mapping of the first attempt that returns, whatever its status: a mapping
  with status \<open>error\<close> returned by the first attempt ends the call after that one
  invocation and is handed back unchanged. Only an attempt that times out or raises is
  retried, and when all \<open>max_retries\<close> attempts do, the tool has been invoked
  \<open>max_retries\<close> times and the guard returns a mapping with status \<open>error\<close> and the
  message \<open>Tool execution failed:\<close> followed by the text of the last exception.
\<close>

theorem tool_result_returned_as_is:
  assumes "1 \<le> max_retries self" and "tools self name = Some tool"
  shows "fst (run_tool self name kwargs) =
           (case first_return (\<lambda>k. tool (tool_calls self name + k) kwargs)
                   (nat (max_retries self)) of
              Some returned \<Rightarrow> Inr (Some returned)
            | None \<Rightarrow>
                Inr (Some [(''status'', PStr ''error''),
                           (''message'', PStr (''Tool execution failed: '' @ failure_text
                              (tool (tool_calls self name + (nat (max_retries self) - 1))
                                 kwargs)))])) \<and>
         (tool (tool_calls self name) kwargs = Returns result \<and>
          map_of result ''status'' = Some (PStr ''error'') \<longrightarrow>
            run_tool self name kwargs =
              (Inr (Some result),
               checkpoint name (Raw result)
                 (self\<lparr>tool_calls :=
                    (tool_calls self)(name := Suc (tool_calls self name))\<rparr>))) \<and>
         ((\<forall>k<nat (max_retries self). is_failure (tool (tool_calls self name + k) kwargs)) \<longrightarrow>
            run_tool self name kwargs =
              (Inr (Some [(''status'', PStr ''error''),
                          (''message'', PStr (''Tool execution failed: '' @ failure_text
                             (tool (tool_calls self name + (nat (max_retries self) - 1))
                                kwargs)))]),
               self\<lparr>tool_calls :=
                 (tool_calls self)(name := tool_calls self name + nat (max_retries self))\<rparr>))"
proof (intro conjI impI)
  show "fst (run_tool self name kwargs) =
           (case first_return (\<lambda>k. tool (tool_calls self name + k) kwargs)
                   (nat (max_retries self)) of
              Some returned \<Rightarrow> Inr (Some returned)
            | None \<Rightarrow>
                Inr (Some [(''status'', PStr ''error''),
                           (''message'', PStr (''Tool execution failed: '' @ failure_text
                              (tool (tool_calls self name + (nat (max_retries self) - 1))
                                 kwargs)))]))"
    by (rule run_tool_result [OF assms])
next
  assume first: "tool (tool_calls self name) kwargs = Returns result \<and>
          map_of result ''status'' = Some (PStr ''error'')"
  from assms(1) have pos: "0 < nat (max_retries self)" by simp
  have none: "\<forall>k<0. is_failure (tool (tool_calls self name + k) kwargs)" by simp
  from first have ret: "tool (tool_calls self name + 0) kwargs = Returns result" by simp
  from run_tool_returns [OF assms(2) pos none ret]
  show "run_tool self name kwargs =
              (Inr (Some result),
               checkpoint name (Raw result)
                 (self\<lparr>tool_calls :=
                    (tool_calls self)(name := Suc (tool_calls self name))\<rparr>))"
    by simp
next
  assume "\<forall>k<nat (max_retries self). is_failure (tool (tool_calls self name + k) kwargs)"
  from run_tool_exhausted [OF assms(2,1) this]
  show "run_tool self name kwargs =
              (Inr (Some [(''status'', PStr ''error''),
                          (''message'', PStr (''Tool execution failed: '' @ failure_text
                             (tool (tool_calls self name + (nat (max_retries self) - 1))
                                kwargs)))]),
               self\<lparr>tool_calls :=
                 (tool_calls self)(name := tool_calls self name + nat (max_retries self))\<rparr>)" .
qed

theorem tool_result_returned_as_is_witness:
  "1 \<le> max_retries (register_tool init_orchestrator ''scraper''
          (flaky 0 [(''status'', PStr ''error'')])) \<and>
   tools (register_tool init_orchestrator ''scraper'' (flaky 0 [(''status'', PStr ''error'')]))
     ''scraper'' = Some (flaky 0 [(''status'', PStr ''error'')]) \<and>
   flaky 0 [(''status'', PStr ''error'')] 0 [(''url'', PStr ''http://x'')]
     = Returns [(''status'', PStr ''error'')] \<and>
   map_of [(''status'', PStr ''error'')] ''status'' = Some (PStr ''error'') \<and>
   run_tool (register_tool init_orchestrator ''scraper'' (flaky 0 [(''status'', PStr ''error'')]))
          ''scraper'' [(''url'', PStr ''http://x'')]
     = (Inr (Some [(''status'', PStr ''error'')]),
        (register_tool init_orchestrator ''scraper'' (flaky 0 [(''status'', PStr ''error'')]))
          \<lparr>tool_calls := (\<lambda>name. 0)(''scraper'' := Suc 0)\<rparr>) \<and>
   fst (run_tool (register_tool init_orchestrator ''scraper''
          (flaky 2 [(''status'', PStr ''error'')]))
          ''scraper'' [(''url'', PStr ''http://x'')])
     = Inr (Some [(''status'', PStr ''error'')]) \<and>
   run_tool (register_tool init_orchestrator ''search'' (always_raises ''connection refused''))
          ''search'' [(''query'', PStr ''meal kits'')]
     = (Inr (Some [(''status'', PStr ''error''),
                   (''message'', PStr ''Tool execution failed: connection refused'')]),
        (register_tool init_orchestrator ''search'' (always_raises ''connection refused''))
          \<lparr>tool_calls := (\<lambda>name. 0)(''search'' := 3)\<rparr>) \<and>
   fst (run_tool (register_tool init_orchestrator ''search'' always_times_out)
          ''search'' [(''query'', PStr ''meal kits'')])
     = Inr (Some [(''status'', PStr ''error''),
                  (''message'', PStr ''Tool execution failed: '')])"
  using tool_result_returned_as_is
      [of "register_tool init_orchestrator ''scraper'' (flaky 0 [(''status'', PStr ''error'')])"
          "''scraper''" "flaky 0 [(''status'', PStr ''error'')]" "[(''url'', PStr ''http://x'')]"
          "[(''status'', PStr ''error'')]"]
    tool_result_returned_as_is
      [of "register_tool init_orchestrator ''scraper'' (flaky 2 [(''status'', PStr ''error'')])"
          "''scraper''" "flaky 2 [(''status'', PStr ''error'')]" "[(''url'', PStr ''http://x'')]"]
    tool_result_returned_as_is
      [of "register_tool init_orchestrator ''search'' (always_raises ''connection refused'')"
          "''search''" "always_raises ''connection refused''"
          "[(''query'', PStr ''meal kits'')]"]
    tool_result_returned_as_is
      [of "register_tool init_orchestrator ''search'' always_times_out"
          "''search''" always_times_out "[(''query'', PStr ''meal kits'')]"]
  by (simp add: init_orchestrator_def register_tool_def flaky_def always_raises_def
      always_times_out_def timeout_text_def eval_nat_numeral checkpoint_def)

section \<open>Properties of the workflow engine\<close>

lemmas example_defs = example_environment_def example_construct_idea_def
  example_validate_personas_def example_parse_int_def general_recommendations_def
  example_input_def str_field_def

subsection \<open>C10: the execution context of a workflow run\<close>

text \<open>
  Claim C10 says that after \<open>execute_workflow\<close> the engine holds no workflow name and an
  empty results mapping. The name is cleared, the mapping is not: after a run of the
  mvp-only pipeline on an input without the three required payloads, with persistence
  enabled, the mapping holds the returned value under \<open>final_result\<close>.
\<close>

theorem results_kept_after_run_counterexample:
  "current_workflow (snd (execute_workflow
      [''mvp_only'' \<mapsto> workflow_mvp_only example_environment]
      init_orchestrator ''mvp_only'' example_input)) = None \<and>
   results_store (snd (execute_workflow
      [''mvp_only'' \<mapsto> workflow_mvp_only example_environment]
      init_orchestrator ''mvp_only'' example_input)) ''final_result''
   = Some (Raw [(''error'', PStr ''Missing required data: market_data, competitor_data, customer_personas''),
                (''success'', PBool False)])"
  by (simp add: execute_workflow_def workflow_mvp_only_def parse_startup_idea_def
      example_defs init_orchestrator_def save_result_def)

text \<open>
  Claim C10 as amended. For a registered workflow name, \<open>execute_workflow\<close> sets the
  current workflow name and resets the results mapping to empty before it calls the
  procedure, and clears the workflow name when the procedure has returned or raised; the
  result or the error of the procedure is passed on. The results mapping is not cleared
  at the end: it keeps what the run stored, with the returned value under \<open>final_result\<close>
  when persistence is enabled. For a name that is not registered, ValueError is raised
  and the state is left as it was.
\<close>

theorem execution_context_lifetime:
  "(workflows unknown_name = None \<longrightarrow>
      execute_workflow workflows self unknown_name input_data = (Inl ValueError, self)) \<and>
   (workflows workflow_name = Some workflow_function \<and>
    workflow_function
      (self\<lparr>current_workflow := Some workflow_name, results_store := Map.empty\<rparr>) input_data
      = (outcome, self') \<longrightarrow>
      fst (execute_workflow workflows self workflow_name input_data) = outcome \<and>
      current_workflow (snd (execute_workflow workflows self workflow_name input_data)) = None \<and>
      results_store (snd (execute_workflow workflows self workflow_name input_data)) =
        (case outcome of
           Inl e \<Rightarrow> results_store self'
         | Inr result \<Rightarrow>
             if save_intermediate_results self'
             then (results_store self')(''final_result'' \<mapsto> Raw result)
             else results_store self'))"
  by (auto simp: execute_workflow_def save_result_def split: sum.splits)

theorem execution_context_lifetime_witness:
  "[''market_only'' \<mapsto> workflow_market_only example_environment] ''full'' = None \<and>
   execute_workflow [''market_only'' \<mapsto> workflow_market_only example_environment]
     (register_agent init_orchestrator ''market_researcher''
        (always_returns (Raw [(''market_trends'', PDict [(''growth_rate'', PNum 12)])])))
     ''full'' example_input
   = (Inl ValueError,
      register_agent init_orchestrator ''market_researcher''
        (always_returns (Raw [(''market_trends'', PDict [(''growth_rate'', PNum 12)])]))) \<and>
   [''market_only'' \<mapsto> workflow_market_only example_environment] ''market_only''
     = Some (workflow_market_only example_environment) \<and>
   current_workflow (snd (execute_workflow
     [''market_only'' \<mapsto> workflow_market_only example_environment]
     (register_agent init_orchestrator ''market_researcher''
        (always_returns (Raw [(''market_trends'', PDict [(''growth_rate'', PNum 12)])])))
     ''market_only'' example_input)) = None \<and>
   dom (results_store (snd (execute_workflow
     [''market_only'' \<mapsto> workflow_market_only example_environment]
     (register_agent init_orchestrator ''market_researcher''
        (always_returns (Raw [(''market_trends'', PDict [(''growth_rate'', PNum 12)])])))
     ''market_only'' example_input)))
   = {''market_only_market_researcher'', ''market_only_report'', ''final_result''}"
proof -
  let ?wfs = "[''market_only'' \<mapsto> workflow_market_only example_environment]"
  let ?self = "register_agent init_orchestrator ''market_researcher''
        (always_returns (Raw [(''market_trends'', PDict [(''growth_rate'', PNum 12)])]))"
  let ?start = "?self\<lparr>current_workflow := Some ''market_only'', results_store := Map.empty\<rparr>"
  let ?run = "workflow_market_only example_environment ?start example_input"
  have run: "?run = (fst ?run, snd ?run)" by simp
  have store: "dom (results_store (snd ?run)) = {''market_only_market_researcher'', ''market_only_report''}"
    and out: "\<exists>r. fst ?run = Inr r"
    and save: "save_intermediate_results (snd ?run)"
    by (auto simp: workflow_market_only_def parse_startup_idea_def example_defs run_agent_def
        fixture_defs Let_def upt_rec checkpoint_def save_result_def wrap_output_def)
  from execution_context_lifetime
    [of ?wfs "''full''" ?self example_input "''market_only''"
        "workflow_market_only example_environment" "fst ?run" "snd ?run"]
    run store out save
  show ?thesis by (auto split: sum.splits)
qed

section \<open>Properties of the full-validation pipeline\<close>

subsection \<open>C9: the report after a failed competitor analysis\<close>

text \<open>
  Claim C9 says that when market research succeeds and competitor analysis fails, the
  report contains the idea and the market payload. \<open>_generate_error_report\<close> adds the
  market payload only if it is truthy: when the market researcher succeeds with an empty
  dict, the report has no \<open>market_analysis\<close> key.
\<close>

theorem empty_market_payload_counterexample:
  "fst (run_agent
     (register_agent
        (register_agent init_orchestrator ''market_researcher'' (always_returns (Raw [])))
        ''competitor_analyzer'' always_times_out)
     ''market_researcher''
     [(''idea'', PDict [(''name'', PStr ''EcoMeal''),
                       (''description'', PStr ''Sustainable meal kits from local farms''),
                       (''target_audience'', PNone), (''industry'', PNone),
                       (''problem_statement'', PNone), (''solution'', PNone),
                       (''revenue_model'', PNone), (''initial_thoughts'', PNone)]),
      (''search_terms'', PList [])])
   = Inr (Some \<lparr>agent_name = ''market_researcher'', message_type = ''result'', content = [],
                success = True, metadata = None\<rparr>) \<and>
   fst (workflow_full_validation example_environment
     (register_agent
        (register_agent init_orchestrator ''market_researcher'' (always_returns (Raw [])))
        ''competitor_analyzer'' always_times_out)
     example_input)
   = Inr [(''success'', PBool False),
          (''error'', PStr ''Competitor analysis failed''),
          (''idea'', PDict [(''name'', PStr ''EcoMeal''),
                            (''description'', PStr ''Sustainable meal kits from local farms''),
                            (''target_audience'', PNone),
                            (''industry'', PNone),
                            (''problem_statement'', PNone),
                            (''solution'', PNone),
                            (''revenue_model'', PNone),
                            (''initial_thoughts'', PNone)]),
          (''timestamp'', PStr ''2024-05-01T12:00:00'')]"
  by (simp add: workflow_full_validation_def competitor_stage_def generate_error_report_def
      parse_startup_idea_def example_defs run_agent_def fixture_defs Let_def upt_rec
      checkpoint_def save_result_def wrap_output_def idea_dict_def optional_str_def
      payload_get_def)

text \<open>
  Claim C9 as amended. In the full-validation pipeline, whenever the idea parses, the
  market-research stage succeeds and the competitor-analysis stage reports failure, the
  pipeline returns a report with \<open>success\<close> false, the error text, the idea and the
  timestamp, and with the market payload under \<open>market_analysis\<close> when that payload is
  not empty; an empty market payload is left out. The report has no other key: no
  competitor, persona or mvp key.
\<close>

theorem competitor_failure_report:
  assumes "parse_startup_idea env input_data = Inr i"
    and "run_agent self ''market_researcher''
           [(''idea'', PDict (idea_dict i)),
            (''search_terms'', payload_get input_data ''search_terms'' (PList []))]
         = (Inr (Some market_result), s1)"
    and "success market_result"
    and "run_agent (save_result ''market_research'' (Raw (content market_result)) s1)
           ''competitor_analyzer''
           [(''idea'', PDict (idea_dict i)), (''market_data'', PDict (content market_result))]
         = (Inr (Some competitor_result), s2)"
    and "\<not> success competitor_result"
  shows "\<exists>report. workflow_full_validation env self input_data = (Inr report, s2) \<and>
           map_of report ''success'' = Some (PBool False) \<and>
           map_of report ''error'' = Some (PStr ''Competitor analysis failed'') \<and>
           map_of report ''idea'' = Some (PDict (idea_dict i)) \<and>
           map_of report ''market_analysis'' =
             (if content market_result = [] then None
              else Some (PDict (content market_result))) \<and>
           map_of report ''competitor_analysis'' = None \<and>
           map_of report ''customer_personas'' = None \<and>
           map_of report ''mvp_plan'' = None \<and>
           map fst report =
             [''success'', ''error'', ''idea'', ''timestamp''] @
             (if content market_result = [] then [] else [''market_analysis''])"
proof -
  have run: "workflow_full_validation env self input_data =
      (Inr (generate_error_report env ''Competitor analysis failed'' i
              (Some (content market_result)) None None), s2)"
    using assms by (simp add: workflow_full_validation_def competitor_stage_def)
  show ?thesis
    unfolding run by (simp add: generate_error_report_def)
qed

theorem competitor_failure_report_witness:
  "parse_startup_idea example_environment example_input
   = Inr \<lparr>idea_name = ''EcoMeal'',
           idea_description = ''Sustainable meal kits from local farms'',
           target_audience = None, industry = None, problem_statement = None,
           solution = None, revenue_model = None, initial_thoughts = None\<rparr> \<and>
   (\<exists>report.
      fst (workflow_full_validation example_environment
        (register_agent
           (register_agent init_orchestrator ''market_researcher''
              (always_returns (Raw [(''market_trends'', PDict [(''growth_rate'', PNum 25)])])))
           ''competitor_analyzer'' (always_raises ''rate limit''))
        example_input) = Inr report \<and>
      map_of report ''success'' = Some (PBool False) \<and>
      map_of report ''market_analysis''
        = Some (PDict [(''market_trends'', PDict [(''growth_rate'', PNum 25)])]) \<and>
      map_of report ''customer_personas'' = None \<and>
      map_of report ''mvp_plan'' = None \<and>
      map fst report = [''success'', ''error'', ''idea'', ''timestamp'', ''market_analysis''])"
proof -
  let ?self = "register_agent
           (register_agent init_orchestrator ''market_researcher''
              (always_returns (Raw [(''market_trends'', PDict [(''growth_rate'', PNum 25)])])))
           ''competitor_analyzer'' (always_raises ''rate limit'')"
  let ?i = "\<lparr>idea_name = ''EcoMeal'',
           idea_description = ''Sustainable meal kits from local farms'',
           target_audience = None, industry = None, problem_statement = None,
           solution = None, revenue_model = None, initial_thoughts = None\<rparr>"
  let ?m = "[(''market_trends'', PDict [(''growth_rate'', PNum 25)])]"
  let ?market = "\<lparr>agent_name = ''market_researcher'', message_type = ''result'',
                   content = ?m, success = True, metadata = None\<rparr>"
  let ?competitor = "\<lparr>agent_name = ''competitor_analyzer'', message_type = ''error'',
                   content = [(''error'', PStr ''rate limit'')], success = False,
                   metadata = None\<rparr>"
  let ?in1 = "[(''idea'', PDict (idea_dict ?i)),
               (''search_terms'', payload_get example_input ''search_terms'' (PList []))]"
  let ?in2 = "[(''idea'', PDict (idea_dict ?i)), (''market_data'', PDict ?m)]"
  let ?s1 = "snd (run_agent ?self ''market_researcher'' ?in1)"
  let ?s1' = "save_result ''market_research'' (Raw ?m) ?s1"
  let ?s2 = "snd (run_agent ?s1' ''competitor_analyzer'' ?in2)"
  have parse: "parse_startup_idea example_environment example_input = Inr ?i"
    by (simp add: parse_startup_idea_def example_defs)
  have "fst (run_agent ?self ''market_researcher'' ?in1) = Inr (Some ?market)"
    by (simp add: run_agent_def fixture_defs Let_def upt_rec wrap_output_def)
  then have first: "run_agent ?self ''market_researcher'' ?in1 = (Inr (Some ?market), ?s1)"
    by (simp add: prod_eq_iff)
  have "fst (run_agent ?s1' ''competitor_analyzer'' ?in2) = Inr (Some ?competitor)"
    by (simp add: run_agent_def fixture_defs Let_def upt_rec wrap_output_def
        checkpoint_def save_result_def)
  then have second: "run_agent ?s1' ''competitor_analyzer'' ?in2 = (Inr (Some ?competitor), ?s2)"
    by (simp add: prod_eq_iff)
  from competitor_failure_report
    [of example_environment example_input ?i ?self ?market ?s1 ?competitor ?s2]
    parse first second
  show ?thesis by auto
qed

subsection \<open>C1: the validation score lies in the closed interval from 0 to 100\<close>

lemma score_clamped:
  "calculate_validation_score m c p v = Inr score \<Longrightarrow> 0 \<le> score \<and> score \<le> 100"
  by (auto simp: calculate_validation_score_def and_then_def split: sum.splits)

lemma generated_report_score:
  assumes "generate_validation_report env i m c p v = Inr report"
  shows "\<exists>score. calculate_validation_score m c p v = Inr score \<and>
           validation_score report = Some (of_int score)"
  using assms
  by (auto simp: generate_validation_report_def and_then_def split: sum.splits option.splits)

lemma error_report_no_score:
  "map_of (generate_error_report env msg i m c p) ''validation_score'' = None"
  by (simp add: generate_error_report_def split: option.splits)

lemma final_report_stage_score:
  assumes "final_report_stage env self i m c p v = (Inr report, self')"
    and "map_of report ''validation_score'' = Some x"
  shows "\<exists>score. calculate_validation_score m c p v = Inr score \<and> x = PNum (of_int score)"
proof -
  from assms(1) obtain r where gen: "generate_validation_report env i m c p v = Inr r"
    and rep: "report = report_dict r"
    by (auto simp: final_report_stage_def split: sum.splits)
  from generated_report_score [OF gen] obtain score
    where "calculate_validation_score m c p v = Inr score"
      "validation_score r = Some (of_int score)" by blast
  with rep assms(2) show ?thesis by (simp add: report_dict_def)
qed

lemma error_report_ok: "score_field_ok (generate_error_report env msg i m c p)"
  by (simp add: score_field_ok_def error_report_no_score)

lemma final_report_stage_ok:
  assumes "final_report_stage env self i m c p v = (Inr report, self')"
  shows "score_field_ok report"
proof (cases "map_of report ''validation_score''")
  case None
  then show ?thesis by (simp add: score_field_ok_def)
next
  case (Some x)
  from final_report_stage_score [OF assms Some] obtain score
    where s: "calculate_validation_score m c p v = Inr score" "x = PNum (of_int score)" by blast
  from score_clamped [OF s(1)] s(2) Some show ?thesis by (simp add: score_field_ok_def)
qed

lemma mvp_stage_ok:
  assumes "mvp_stage env self i m c p = (Inr report, self')"
  shows "score_field_ok report"
  using assms
  by (auto simp: mvp_stage_def error_report_ok
      split: prod.splits sum.splits option.splits if_splits
      dest: final_report_stage_ok)

lemma interim_report_ok:
  "generate_interim_report env self i m c p = (report, self') \<Longrightarrow> score_field_ok report"
  by (auto simp: generate_interim_report_def score_field_ok_def Let_def)

lemma approval_stage_ok:
  assumes "approval_stage env self i m c p = (Inr report, self')"
  shows "score_field_ok report"
  using assms
  by (auto simp: approval_stage_def
      split: prod.splits sum.splits if_splits
      dest: mvp_stage_ok interim_report_ok)

lemma persona_stage_ok:
  assumes "persona_stage env self i m c = (Inr report, self')"
  shows "score_field_ok report"
  using assms
  by (auto simp: persona_stage_def error_report_ok
      split: prod.splits sum.splits option.splits if_splits
      dest: approval_stage_ok)

lemma competitor_stage_ok:
  assumes "competitor_stage env self i m = (Inr report, self')"
  shows "score_field_ok report"
  using assms
  by (auto simp: competitor_stage_def error_report_ok
      split: prod.splits sum.splits option.splits if_splits
      dest: persona_stage_ok)

lemma workflow_full_validation_ok:
  assumes "workflow_full_validation env self input_data = (Inr report, self')"
  shows "score_field_ok report"
  using assms
  by (auto simp: workflow_full_validation_def error_report_ok
      split: prod.splits sum.splits option.splits if_splits
      dest: competitor_stage_ok)

text \<open>
  Claim C1. Whenever \<open>_calculate_validation_score\<close> returns a value for the market,
  competitor, persona and mvp payloads, that value is at least 0 and at most 100; hence
  the \<open>validation_score\<close> entry of a report returned by the full-validation pipeline
  is a number from 0 to 100.
\<close>

theorem validation_score_in_range:
  "(calculate_validation_score market_data competitor_data persona_data mvp_data = Inr score
      \<longrightarrow> 0 \<le> score \<and> score \<le> 100) \<and>
   (workflow_full_validation env self input_data = (Inr report, self') \<and>
    map_of report ''validation_score'' = Some x
      \<longrightarrow> (\<exists>r. x = PNum r \<and> 0 \<le> r \<and> r \<le> 100))"
proof (intro conjI impI)
  assume "calculate_validation_score market_data competitor_data persona_data mvp_data = Inr score"
  from score_clamped [OF this] show "0 \<le> score" "score \<le> 100" by simp_all
next
  assume a: "workflow_full_validation env self input_data = (Inr report, self') \<and>
    map_of report ''validation_score'' = Some x"
  then have "score_field_ok report" by (blast dest: workflow_full_validation_ok)
  with a show "\<exists>r. x = PNum r \<and> 0 \<le> r \<and> r \<le> 100"
    by (cases x) (simp_all add: score_field_ok_def)
qed

theorem validation_score_in_range_witness:
  "calculate_validation_score
     [(''market_trends'', PDict [(''market_size'', PNum 5000000), (''growth_rate'', PNum 2)])]
     [(''competitors'', PList [])]
     [(''personas'', PList [PDict [(''pain_level'', PStr ''low'')]])]
     [(''cost_estimate'', PDict [(''min'', PNum 60000)])] = Inr 35 \<and>
   (0::int) \<le> 35 \<and> (35::int) \<le> 100 \<and>
   (\<exists>report.
      fst (workflow_full_validation example_environment
        (register_agent (register_agent (register_agent (register_agent init_orchestrator
           ''market_researcher''
             (always_returns (Raw [(''market_trends'',
                PDict [(''market_size'', PNum 5000000), (''growth_rate'', PNum 2)])])))
           ''competitor_analyzer'' (always_returns (Raw [(''competitors'', PList [])])))
           ''customer_persona_generator''
             (always_returns (Raw [(''personas'', PList [PDict [(''pain_level'', PStr ''low'')]])])))
           ''mvp_planner''
             (always_returns (Raw [(''cost_estimate'', PDict [(''min'', PNum 60000)])])))
        example_input) = Inr report \<and>
      map_of report ''validation_score'' = Some (PNum 35))"
proof -
  let ?m = "[(''market_trends'', PDict [(''market_size'', PNum 5000000), (''growth_rate'', PNum 2)])]"
  let ?c = "[(''competitors'', PList [])]"
  let ?p = "[(''personas'', PList [PDict [(''pain_level'', PStr ''low'')]])]"
  let ?v = "[(''cost_estimate'', PDict [(''min'', PNum 60000)])]"
  let ?self = "register_agent (register_agent (register_agent (register_agent init_orchestrator
           ''market_researcher'' (always_returns (Raw ?m)))
           ''competitor_analyzer'' (always_returns (Raw ?c)))
           ''customer_persona_generator'' (always_returns (Raw ?p)))
           ''mvp_planner'' (always_returns (Raw ?v))"
  let ?run = "workflow_full_validation example_environment ?self example_input"
  have score: "calculate_validation_score ?m ?c ?p ?v = Inr 35"
    by (simp add: score_defs)
  have completed: "\<exists>report. fst ?run = Inr report \<and>
      map_of report ''validation_score'' = Some (PNum 35)"
    by (simp add: workflow_full_validation_def competitor_stage_def persona_stage_def
        approval_stage_def mvp_stage_def final_report_stage_def generate_validation_report_def
        save_validation_report_def report_dict_def score and_then_def
        parse_startup_idea_def example_defs run_agent_def fixture_defs Let_def upt_rec
        checkpoint_def save_result_def wrap_output_def payload_get_def)
  then obtain report where report: "fst ?run = Inr report"
    "map_of report ''validation_score'' = Some (PNum 35)" by blast
  then have run: "?run = (Inr report, snd ?run)" by (simp add: prod_eq_iff)
  from validation_score_in_range
    [of ?m ?c ?p ?v 35 example_environment ?self example_input report "snd ?run" "PNum 35"]
    score run report
  show ?thesis by auto
qed

end
